theory Spec2Isabelle
  imports Complex_Main "HOL-Library.AList" "HOL-Library.Word"
begin

section \<open>Tax-id (CNPJ) validation: \<open>OpenCNPJService\<close>\<close>

text \<open>
  JavaScript strings are modelled as \<^typ>\<open>string\<close>. The validator first deletes every
  character that the regular expression \<^verbatim>\<open>\D\<close> matches, that is, every character
  outside \<^verbatim>\<open>0-9\<close>.
\<close>

definition isDigit :: "char \<Rightarrow> bool" where
  "isDigit c \<longleftrightarrow> c \<in> set ''0123456789''"

text \<open>\<^verbatim>\<open>cnpj.replace(/\D/g, '')\<close>\<close>

definition stripNonDigits :: "string \<Rightarrow> string" where
  "stripNonDigits s = filter isDigit s"

text \<open>
  \<^verbatim>\<open>parseInt(cnpj[i])\<close>: the character at index \<open>i\<close> read as a number. An index
  past the end gives \<^verbatim>\<open>undefined\<close> and a character that is no digit does not parse;
  both yield \<^verbatim>\<open>NaN\<close>, which is \<open>None\<close> here.
\<close>

definition parseIntAt :: "string \<Rightarrow> nat \<Rightarrow> nat option" where
  "parseIntAt s i =
     (if i < length s \<and> isDigit (s ! i) then Some (of_char (s ! i) - 48) else None)"

definition weights1 :: "nat list" where
  "weights1 = [5, 4, 3, 2, 9, 8, 7, 6, 5, 4, 3, 2]"

definition weights2 :: "nat list" where
  "weights2 = [6, 5, 4, 3, 2, 9, 8, 7, 6, 5, 4, 3, 2]"

text \<open>
  The loop \<^verbatim>\<open>for (i = 0; i < n; i++) sum += parseInt(cnpj[i]) * weights[i]\<close>, started at
  \<open>sum = 0\<close>. A \<^verbatim>\<open>NaN\<close> summand makes the sum \<^verbatim>\<open>NaN\<close>.
\<close>

definition weightedSum :: "string \<Rightarrow> nat list \<Rightarrow> nat \<Rightarrow> nat option" where
  "weightedSum cnpj weights n =
     fold (\<lambda>i sm. case (sm, parseIntAt cnpj i) of
                      (Some acc, Some d) \<Rightarrow> Some (acc + d * weights ! i)
                    | _ \<Rightarrow> None)
          [0..<n] (Some 0)"

text \<open>\<^verbatim>\<open>sum % 11 < 2 ? 0 : 11 - (sum % 11)\<close>\<close>

definition checkDigit :: "nat \<Rightarrow> nat" where
  "checkDigit sm = (if sm mod 11 < 2 then 0 else 11 - sm mod 11)"

text \<open>
  \<open>validateCNPJCheckDigits\<close>. Every comparison with \<^verbatim>\<open>NaN\<close> by \<^verbatim>\<open>!==\<close> is true and by
  \<^verbatim>\<open>===\<close> is false, so a \<open>None\<close> on either side rejects.
\<close>

definition validateCNPJCheckDigits :: "string \<Rightarrow> bool" where
  "validateCNPJCheckDigits cnpj =
     (case (weightedSum cnpj weights1 12, parseIntAt cnpj 12) of
        (Some sum1, Some c12) \<Rightarrow>
          if checkDigit sum1 \<noteq> c12 then False
          else (case (weightedSum cnpj weights2 13, parseIntAt cnpj 13) of
                  (Some sum2, Some c13) \<Rightarrow> checkDigit sum2 = c13
                | _ \<Rightarrow> False)
      | _ \<Rightarrow> False)"

text \<open>
  The test \<^verbatim>\<open>/^(\d)\1{13}$/\<close>: one digit followed by thirteen copies of itself, and
  nothing else.
\<close>

definition allSameDigit :: "string \<Rightarrow> bool" where
  "allSameDigit s =
     (case s of [] \<Rightarrow> False
      | c # cs \<Rightarrow> isDigit c \<and> length cs = 13 \<and> (\<forall>x \<in> set cs. x = c))"

definition validateCNPJFormat :: "string \<Rightarrow> bool" where
  "validateCNPJFormat cnpj =
     (let cleanCNPJ = stripNonDigits cnpj in
      if length cleanCNPJ \<noteq> 14 then False
      else if allSameDigit cleanCNPJ then False
      else validateCNPJCheckDigits cleanCNPJ)"

subsection \<open>The validator as the specification words it\<close>

text \<open>
  The specification's wording, independent of the code above: the digits of the input, in
  order; the weighted sum of a prefix against a weight list; remainder below 2 gives check
  digit 0, otherwise 11 minus the remainder.
\<close>

definition spec_digits :: "string \<Rightarrow> nat list" where
  "spec_digits s = map (\<lambda>c. of_char c - 48) (filter isDigit s)"

definition spec_check_digit :: "nat list \<Rightarrow> nat list \<Rightarrow> nat" where
  "spec_check_digit ws ds =
     (let r = sum_list (map (\<lambda>(w, d). w * d) (zip ws ds)) mod 11
      in if r < 2 then 0 else 11 - r)"

definition spec_valid_tax_id :: "string \<Rightarrow> bool" where
  "spec_valid_tax_id s =
     (let ds = spec_digits s in
      length ds = 14
      \<and> \<not> (\<forall>d \<in> set ds. d = hd ds)
      \<and> ds ! 12 = spec_check_digit [5, 4, 3, 2, 9, 8, 7, 6, 5, 4, 3, 2] ds
      \<and> ds ! 13 = spec_check_digit [6, 5, 4, 3, 2, 9, 8, 7, 6, 5, 4, 3, 2] ds)"

section \<open>JavaScript values\<close>

text \<open>
  Cell values, row payloads and enriched fields have the TypeScript type \<^verbatim>\<open>any\<close>. The
  model keeps the shapes the services produce and test: \<^verbatim>\<open>undefined\<close>, \<^verbatim>\<open>null\<close>, booleans,
  integral numbers, strings, plain objects (in \<^verbatim>\<open>Object.entries\<close> order) and arrays.
  Characters are the code units below 256. Property names are assumed not to collide with
  the names inherited from \<^verbatim>\<open>Object.prototype\<close>.
\<close>

datatype jsval =
    JUndefined
  | JNull
  | JBool bool
  | JNum int
  | JStr string
  | JObj "(string \<times> jsval) list"
  | JArr "jsval list"

text \<open>Truthiness, as used by \<^verbatim>\<open>&&\<close>, \<^verbatim>\<open>||\<close> and \<^verbatim>\<open>if\<close>.\<close>

fun truthy :: "jsval \<Rightarrow> bool" where
  "truthy JUndefined = False"
| "truthy JNull = False"
| "truthy (JBool b) = b"
| "truthy (JNum n) = (n \<noteq> 0)"
| "truthy (JStr s) = (s \<noteq> [])"
| "truthy (JObj _) = True"
| "truthy (JArr _) = True"

fun showNat :: "nat \<Rightarrow> string" where
  "showNat n =
     (if n < 10 then [char_of (48 + n)]
      else showNat (n div 10) @ [char_of (48 + n mod 10)])"

definition showInt :: "int \<Rightarrow> string" where
  "showInt n = (if n < 0 then CHR ''-'' # showNat (nat (- n)) else showNat (nat n))"

fun joinWith :: "string \<Rightarrow> string list \<Rightarrow> string" where
  "joinWith sep [] = []"
| "joinWith sep [x] = x"
| "joinWith sep (x # y # zs) = x @ sep @ joinWith sep (y # zs)"

text \<open>
  \<^verbatim>\<open>v.toString()\<close> for a value that has the method; the services call it only behind a
  truthiness test, so \<^verbatim>\<open>undefined\<close> and \<^verbatim>\<open>null\<close> never reach it (inside an array they
  print as the empty string, which is what the first two equations are used for).
\<close>

fun toStringJ :: "jsval \<Rightarrow> string" where
  "toStringJ JUndefined = []"
| "toStringJ JNull = []"
| "toStringJ (JBool b) = (if b then ''true'' else ''false'')"
| "toStringJ (JNum n) = showInt n"
| "toStringJ (JStr s) = s"
| "toStringJ (JObj _) = ''[object Object]''"
| "toStringJ (JArr xs) = joinWith '','' (map toStringJ xs)"

text \<open>White space as \<^verbatim>\<open>\s\<close> and \<^verbatim>\<open>trim\<close> see it, among the code units below 256.\<close>

definition isSpace :: "char \<Rightarrow> bool" where
  "isSpace c \<longleftrightarrow> (of_char c :: nat) \<in> {9, 10, 11, 12, 13, 32, 160}"

definition trim :: "string \<Rightarrow> string" where
  "trim s = rev (dropWhile isSpace (rev (dropWhile isSpace s)))"

subsection \<open>Numbers that are used as row indices\<close>

text \<open>
  \<open>updateCell\<close> takes its row index as a \<^verbatim>\<open>number\<close> and checks nothing about it, and
  \<open>totalRows\<close> is computed from it. Such a number is a finite value, \<^verbatim>\<open>NaN\<close> or one of the
  two infinities. Finite values are rationals and \<^verbatim>\<open>x + 1\<close> is exact on them: the
  rounding of double-precision arithmetic is not modelled.
\<close>

datatype jsnumber = Finite rat | NaN | PosInfinity | NegInfinity

text \<open>An array length, or any other natural number, as a number.\<close>

definition ofNat :: "nat \<Rightarrow> jsnumber" where
  "ofNat n = Finite (of_nat n)"

text \<open>\<^verbatim>\<open>xs.length <= x\<close> for an array of length \<open>n\<close>; a comparison with \<^verbatim>\<open>NaN\<close> is false.\<close>

fun lengthLe :: "nat \<Rightarrow> jsnumber \<Rightarrow> bool" where
  "lengthLe n (Finite q) = (of_nat n \<le> q)"
| "lengthLe n NaN = False"
| "lengthLe n PosInfinity = True"
| "lengthLe n NegInfinity = False"

text \<open>\<^verbatim>\<open>x + 1\<close>\<close>

fun plusOne :: "jsnumber \<Rightarrow> jsnumber" where
  "plusOne (Finite q) = Finite (q + 1)"
| "plusOne NaN = NaN"
| "plusOne PosInfinity = PosInfinity"
| "plusOne NegInfinity = NegInfinity"

text \<open>\<^verbatim>\<open>Math.max(x, y)\<close>: \<^verbatim>\<open>NaN\<close> when either argument is.\<close>

fun mathMax :: "jsnumber \<Rightarrow> jsnumber \<Rightarrow> jsnumber" where
  "mathMax NaN y = NaN"
| "mathMax x NaN = NaN"
| "mathMax PosInfinity y = PosInfinity"
| "mathMax x PosInfinity = PosInfinity"
| "mathMax NegInfinity y = y"
| "mathMax x NegInfinity = x"
| "mathMax (Finite a) (Finite b) = Finite (max a b)"

text \<open>
  Which element \<^verbatim>\<open>xs[x]\<close> names: the element \<open>n\<close> when \<open>x\<close> is the natural number \<open>n\<close>. For
  any other number the property key \<^verbatim>\<open>String(x)\<close> is no array index, and \<^verbatim>\<open>xs[x]\<close> is
  an ordinary property of the array object.
\<close>

fun arrayIndex :: "jsnumber \<Rightarrow> nat option" where
  "arrayIndex (Finite q) = (if 0 \<le> q \<and> of_int \<lfloor>q\<rfloor> = q then Some (nat \<lfloor>q\<rfloor>) else None)"
| "arrayIndex NaN = None"
| "arrayIndex PosInfinity = None"
| "arrayIndex NegInfinity = None"

section \<open>The sheet data model (\<open>sheet.types.ts\<close>)\<close>

text \<open>
  One reading of the clock, in the three renderings the services use: \<^verbatim>\<open>Date.now()\<close> /
  \<^verbatim>\<open>new Date()\<close>, \<^verbatim>\<open>toISOString()\<close> and \<^verbatim>\<open>toLocaleString('pt-BR')\<close>. The clock reads of
  one synchronous service call are taken to be one reading.
\<close>

record clock =
  millis :: nat
  iso :: string
  pt_BR :: string

record cell_metadata =
  cm_lastModified :: nat
  modifiedBy :: string

text \<open>
  A cell. The optional \<^verbatim>\<open>formula\<close> and \<^verbatim>\<open>style\<close> of the interface are never written or
  read by the services and are left out.
\<close>

record cell =
  cell_value :: jsval
  isLoading :: "bool option"
  cell_metadata :: "cell_metadata option"

type_synonym row = "string \<rightharpoonup> cell"

datatype column_type = TText | TNumber | TDate | TEmail | TPhone | TCnpj | TSelect | TEnriched

datatype enrichment_kind = KAddress | KEmail | KPhone | KCompany

text \<open>\<^verbatim>\<open>Omit<Column, 'id'>\<close>, and \<^verbatim>\<open>Column\<close> as its extension by the id.\<close>

record column_spec =
  col_name :: string
  col_type :: column_type
  editable :: bool
  width :: "nat option"
  options :: "string list option"
  enrichmentType :: "enrichment_kind option"

record column = column_spec +
  col_id :: string

record sheet_metadata =
  totalRows :: jsnumber
  totalColumns :: nat
  lastModified :: nat
  version :: int
  editableFields :: "string list"

record sheet_permissions =
  owner :: string
  editors :: "string list"
  viewers :: "string list"
  public :: bool

record sheet_settings =
  autoSave :: bool
  enableCollaboration :: bool
  enableEnrichment :: bool

text \<open>
  A sheet. \<open>rows\<close> is the array proper; \<open>row_props\<close> holds the properties of the array
  object under keys that are no array index, which \<open>updateCell\<close> writes when it is given
  a row index that is negative, not integral, \<^verbatim>\<open>NaN\<close> or infinite. The version counter is
  an unbounded integer (it starts at 1 and would need \<open>2^53\<close> mutations to leave the exact
  range of a double). Arrays grow without a bound: memory exhaustion is outside the
  model.
\<close>

record sheet =
  sheet_id :: string
  sheet_name :: string
  description :: "string option"
  columns :: "column list"
  rows :: "row list"
  row_props :: "jsnumber \<rightharpoonup> row"
  metadata :: sheet_metadata
  permissions :: sheet_permissions
  settings :: sheet_settings

datatype operation_type =
    cell_update | row_insert | row_delete | column_insert | column_delete
  | enrichment_update | enrichment_progress | sheet_updated

text \<open>The \<^verbatim>\<open>data\<close> payloads the sheet service records.\<close>

datatype operation_data =
    CellUpdateData jsnumber string jsval jsval
  | RowInsertData int "(string \<times> jsval) list"
  | ColumnInsertData column
  | EnrichmentUpdateData "int option list"

record sheet_operation =
  op_type :: operation_type
  op_sheetId :: string
  op_userId :: string
  op_timestamp :: nat
  op_data :: operation_data
  op_version :: int

text \<open>
  \<^verbatim>\<open>EnrichmentResult\<close> of the enrichment service. The row index is \<open>None\<close> for
  \<^verbatim>\<open>undefined\<close>, which \<open>processBatch\<close> produces when \<^verbatim>\<open>originalIndices\<close> is too short.
\<close>

record enrichment_result =
  result_rowIndex :: "int option"
  result_data :: jsval
  result_enrichedFields :: "(string \<times> jsval) list"

datatype error =
    NotFoundException string
  | JsError string
  | TypeError string
  | RangeError string

text \<open>The two private maps of \<open>SheetService\<close>.\<close>

record sheet_service =
  sheets :: "string \<rightharpoonup> sheet"
  operations :: "string \<rightharpoonup> sheet_operation list"

section \<open>The document store (\<open>SheetService\<close>)\<close>

subsection \<open>Column detection helpers\<close>

text \<open>
  \<^verbatim>\<open>toLowerCase\<close> and \<^verbatim>\<open>toUpperCase\<close> on the code units below 256: the ASCII letters and
  the Latin-1 letters \<open>0xC0..0xDE\<close> (without \<open>0xD7\<close>) and their lower-case partners.
\<close>

definition toLowerChar :: "char \<Rightarrow> char" where
  "toLowerChar c =
     (let n = (of_char c :: nat) in
      if (65 \<le> n \<and> n \<le> 90) \<or> (192 \<le> n \<and> n \<le> 222 \<and> n \<noteq> 215)
      then char_of (n + 32) else c)"

definition toLowerCase :: "string \<Rightarrow> string" where
  "toLowerCase s = map toLowerChar s"

text \<open>\<^verbatim>\<open>\w\<close>: a letter of \<^verbatim>\<open>A-Z\<close>, \<^verbatim>\<open>a-z\<close>, a digit or the underscore.\<close>

definition isWordChar :: "char \<Rightarrow> bool" where
  "isWordChar c =
     (let n = (of_char c :: nat) in
      (65 \<le> n \<and> n \<le> 90) \<or> (97 \<le> n \<and> n \<le> 122) \<or> (48 \<le> n \<and> n \<le> 57) \<or> n = 95)"

text \<open>\<^verbatim>\<open>toUpperCase\<close> of one word character.\<close>

definition toUpperWordChar :: "char \<Rightarrow> char" where
  "toUpperWordChar c =
     (let n = (of_char c :: nat) in if 97 \<le> n \<and> n \<le> 122 then char_of (n - 32) else c)"

text \<open>
  \<^verbatim>\<open>s.replace(/\b\w/g, l => l.toUpperCase())\<close>: a word character is replaced when the
  character before it is no word character (or there is none). The flag says whether the
  previous character was a word character.
\<close>

fun capitalizeWords :: "bool \<Rightarrow> string \<Rightarrow> string" where
  "capitalizeWords prev [] = []"
| "capitalizeWords prev (c # cs) =
     (if isWordChar c \<and> \<not> prev then toUpperWordChar c else c) # capitalizeWords (isWordChar c) cs"

definition formatColumnName :: "string \<Rightarrow> string" where
  "formatColumnName ident =
     capitalizeWords False (map (\<lambda>c. if c = CHR ''_'' then CHR '' '' else c) ident)"

definition isEditableField :: "string \<Rightarrow> bool" where
  "isEditableField key \<longleftrightarrow>
     toLowerCase key \<in> set [''nome'', ''email'', ''telefone'', ''empresa'', ''status'', ''cnpj'']"

text \<open>
  The two anchored display patterns of \<open>detectColumnType\<close>, as sequences of character
  classes: a digit, white space, or one literal character.
\<close>

datatype char_class = Digit | Space | Lit char

fun matchesClass :: "char_class \<Rightarrow> char \<Rightarrow> bool" where
  "matchesClass Digit c = isDigit c"
| "matchesClass Space c = isSpace c"
| "matchesClass (Lit l) c = (c = l)"

definition matchesPattern :: "char_class list \<Rightarrow> string \<Rightarrow> bool" where
  "matchesPattern p s = list_all2 matchesClass p s"

text \<open>\<^verbatim>\<open>/^\d{2}\.\d{3}\.\d{3}\/\d{4}-\d{2}$/\<close>\<close>

definition cnpjPattern :: "char_class list" where
  "cnpjPattern =
     [Digit, Digit, Lit CHR ''.'', Digit, Digit, Digit, Lit CHR ''.'', Digit, Digit, Digit,
      Lit CHR ''/'', Digit, Digit, Digit, Digit, Lit CHR ''-'', Digit, Digit]"

text \<open>\<^verbatim>\<open>/^\(\d{2}\)\s\d{4,5}-\d{4}$/\<close>, with four or with five digits in the middle.\<close>

definition phonePattern :: "nat \<Rightarrow> char_class list" where
  "phonePattern k =
     [Lit CHR ''('', Digit, Digit, Lit CHR '')'', Space] @ replicate k Digit
     @ [Lit CHR ''-'', Digit, Digit, Digit, Digit]"

text \<open>
  \<open>detectColumnType\<close>. Whether \<^verbatim>\<open>Date.parse\<close> accepts a string depends on the
  JavaScript engine; it is the parameter \<open>dateParses\<close>.
\<close>

definition detectColumnType :: "(string \<Rightarrow> bool) \<Rightarrow> jsval \<Rightarrow> column_type" where
  "detectColumnType dateParses v =
     (case v of
        JNum _ \<Rightarrow> TNumber
      | JStr s \<Rightarrow>
          if CHR ''@'' \<in> set s then TEmail
          else if matchesPattern cnpjPattern s then TCnpj
          else if matchesPattern (phonePattern 4) s \<or> matchesPattern (phonePattern 5) s then TPhone
          else if dateParses s then TDate
          else TText
      | _ \<Rightarrow> TText)"

definition mkColumn ::
  "string \<Rightarrow> string \<Rightarrow> column_type \<Rightarrow> bool \<Rightarrow> string list option \<Rightarrow> column" where
  "mkColumn i n t e opts =
     \<lparr>col_name = n, col_type = t, editable = e, width = None, options = opts,
      enrichmentType = None, col_id = i\<rparr>"

definition defaultColumns :: "column list" where
  "defaultColumns =
     [mkColumn ''nome'' ''Nome'' TText True None,
      mkColumn ''empresa'' ''Empresa'' TText True None,
      mkColumn ''cnpj'' ''CNPJ'' TCnpj True None,
      mkColumn ''email'' ''Email'' TEmail True None,
      mkColumn ''telefone'' ''Telefone'' TPhone True None,
      mkColumn ''status'' ''Status'' TSelect True (Some [''Ativo'', ''Pendente'', ''Inativo''])]"

text \<open>
  A \<^verbatim>\<open>Record<string, any>\<close> is the list of its entries in \<^verbatim>\<open>Object.entries\<close> order;
  \<^verbatim>\<open>r[k]\<close> is \<^verbatim>\<open>undefined\<close> for a missing key.
\<close>

definition getProp :: "(string \<times> jsval) list \<Rightarrow> string \<Rightarrow> jsval" where
  "getProp r k = (case map_of r k of None \<Rightarrow> JUndefined | Some v \<Rightarrow> v)"

definition detectColumns ::
  "(string \<Rightarrow> bool) \<Rightarrow> (string \<times> jsval) list list \<Rightarrow> column list" where
  "detectColumns dateParses dat =
     (case dat of
        [] \<Rightarrow> defaultColumns
      | firstRow # _ \<Rightarrow>
          map (\<lambda>(key, v). mkColumn key (formatColumnName key) (detectColumnType dateParses v)
                             (isEditableField key) None)
              firstRow)"

definition userCell :: "jsval \<Rightarrow> nat \<Rightarrow> string \<Rightarrow> cell" where
  "userCell v t userId =
     \<lparr>cell_value = v, isLoading = None,
      cell_metadata = Some \<lparr>cm_lastModified = t, modifiedBy = userId\<rparr>\<rparr>"

definition convertDataToRows ::
  "clock \<Rightarrow> (string \<times> jsval) list list \<Rightarrow> column list \<Rightarrow> row list" where
  "convertDataToRows clk dat cols =
     map (\<lambda>r. fold (\<lambda>col cellRow.
                       let v = getProp r (col_id col) in
                       if v \<noteq> JUndefined
                       then cellRow(col_id col \<mapsto> userCell v (millis clk) ''system'')
                       else cellRow)
                    cols Map.empty)
         dat"

subsection \<open>Operations\<close>

text \<open>
  \<open>createSheet\<close>. The fresh id of \<^verbatim>\<open>uuidv4()\<close> is the parameter \<open>sheetId\<close>; the default
  arguments of the TypeScript signatures are passed by the caller.
\<close>

definition createSheet ::
  "(string \<Rightarrow> bool) \<Rightarrow> clock \<Rightarrow> string \<Rightarrow> sheet_service \<Rightarrow> string
   \<Rightarrow> (string \<times> jsval) list list option \<Rightarrow> string \<Rightarrow> sheet_service \<times> sheet" where
  "createSheet dateParses clk sheetId svc name initialData userId =
     (let dat = (case initialData of None \<Rightarrow> [] | Some d \<Rightarrow> d);
          cols = detectColumns dateParses dat;
          rs = convertDataToRows clk dat cols;
          sheet = \<lparr>sheet_id = sheetId, sheet_name = name,
                   description = Some (''Planilha criada em '' @ pt_BR clk),
                   columns = cols, rows = rs, row_props = Map.empty,
                   metadata = \<lparr>totalRows = ofNat (length rs), totalColumns = length cols,
                               lastModified = millis clk, version = 1,
                               editableFields = map col_id (filter editable cols)\<rparr>,
                   permissions = \<lparr>owner = userId, editors = [], viewers = [], public = False\<rparr>,
                   settings = \<lparr>autoSave = True, enableCollaboration = True,
                               enableEnrichment = True\<rparr>\<rparr>
      in (svc\<lparr>sheets := (sheets svc)(sheetId \<mapsto> sheet),
               operations := (operations svc)(sheetId \<mapsto> [])\<rparr>, sheet))"

definition getSheet :: "sheet_service \<Rightarrow> string \<Rightarrow> error + sheet" where
  "getSheet svc sheetId =
     (case sheets svc sheetId of
        None \<Rightarrow> Inl (NotFoundException (''Sheet with ID '' @ sheetId @ '' not found''))
      | Some sheet \<Rightarrow> Inr sheet)"

text \<open>\<open>recordOperation\<close>: append, keep the last 1000.\<close>

definition recordOperation :: "sheet_service \<Rightarrow> string \<Rightarrow> sheet_operation \<Rightarrow> sheet_service" where
  "recordOperation svc sheetId operation =
     (let ops = (case operations svc sheetId of None \<Rightarrow> [] | Some os \<Rightarrow> os) @ [operation];
          ops' = (if length ops > 1000 then drop (length ops - 1000) ops else ops)
      in svc\<lparr>operations := (operations svc)(sheetId \<mapsto> ops')\<rparr>)"

text \<open>
  \<^verbatim>\<open>while (sheet.rows.length <= rowIndex) sheet.rows.push({})\<close>. For \<^verbatim>\<open>+Infinity\<close> the loop
  has no end, which is \<open>None\<close>.
\<close>

function padRows :: "row list \<Rightarrow> jsnumber \<Rightarrow> row list option" where
  "padRows rs (Finite q) =
     (if lengthLe (length rs) (Finite q) then padRows (rs @ [Map.empty]) (Finite q) else Some rs)"
| "padRows rs NaN = Some rs"
| "padRows rs PosInfinity = None"
| "padRows rs NegInfinity = Some rs"
  by pat_completeness auto
termination
  by (relation "measure (\<lambda>(rs, x). case x of Finite q \<Rightarrow> nat (\<lfloor>q\<rfloor> + 1 - int (length rs)) | _ \<Rightarrow> 0)")
     (auto simp: le_floor_iff)

declare padRows.simps(1) [simp del]

text \<open>
  \<open>updateCell\<close>. When the row index is a natural number the row is an element of the padded
  array. For every other number \<^verbatim>\<open>sheet.rows[rowIndex]\<close> is a property of the array
  object, created empty when absent; the array has been padded up to the index all the
  same. With \<^verbatim>\<open>+Infinity\<close> the padding loop has no end of its own: the engine ends the
  call when the array cannot grow any further (a \<^verbatim>\<open>RangeError\<close> for the array length, if
  the memory lasts that long), before anything else is written.
\<close>

definition updateCell ::
  "clock \<Rightarrow> sheet_service \<Rightarrow> string \<Rightarrow> jsnumber \<Rightarrow> string \<Rightarrow> jsval \<Rightarrow> string
   \<Rightarrow> error + (sheet_service \<times> sheet)" where
  "updateCell clk svc sheetId rowIndex columnId v userId =
     (case getSheet svc sheetId of
        Inl e \<Rightarrow> Inl e
      | Inr sheet \<Rightarrow>
          (case padRows (rows sheet) rowIndex of
             None \<Rightarrow> Inl (RangeError ''Invalid array length'')
           | Some rs \<Rightarrow>
               let r = (case arrayIndex rowIndex of
                          Some n \<Rightarrow> rs ! n
                        | None \<Rightarrow> (case row_props sheet rowIndex of
                                     None \<Rightarrow> Map.empty
                                   | Some r0 \<Rightarrow> r0));
                   oldValue = (case r columnId of None \<Rightarrow> JUndefined | Some c \<Rightarrow> cell_value c);
                   r' = r(columnId \<mapsto> userCell v (millis clk) userId);
                   sheet' = sheet
                     \<lparr>rows := (case arrayIndex rowIndex of Some n \<Rightarrow> rs[n := r'] | None \<Rightarrow> rs),
                      row_props := (case arrayIndex rowIndex of
                                      Some n \<Rightarrow> row_props sheet
                                    | None \<Rightarrow> (row_props sheet)(rowIndex \<mapsto> r')),
                      metadata := (metadata sheet)
                        \<lparr>lastModified := millis clk,
                         version := version (metadata sheet) + 1,
                         totalRows := mathMax (totalRows (metadata sheet)) (plusOne rowIndex)\<rparr>\<rparr>;
                   svc' = recordOperation (svc\<lparr>sheets := (sheets svc)(sheetId \<mapsto> sheet')\<rparr>)
                     sheetId
                     \<lparr>op_type = cell_update, op_sheetId = sheetId, op_userId = userId,
                      op_timestamp = millis clk,
                      op_data = CellUpdateData rowIndex columnId oldValue v,
                      op_version = version (metadata sheet')\<rparr>
               in Inr (svc', sheet')))"

definition addRow ::
  "clock \<Rightarrow> sheet_service \<Rightarrow> string \<Rightarrow> (string \<times> jsval) list \<Rightarrow> string
   \<Rightarrow> error + (sheet_service \<times> sheet)" where
  "addRow clk svc sheetId dat userId =
     (case getSheet svc sheetId of
        Inl e \<Rightarrow> Inl e
      | Inr sheet \<Rightarrow>
          let rowData = fold (\<lambda>(key, v) rd. rd(key \<mapsto> userCell v (millis clk) userId)) dat Map.empty;
              rs = rows sheet @ [rowData];
              sheet' = sheet
                \<lparr>rows := rs,
                 metadata := (metadata sheet)
                   \<lparr>totalRows := ofNat (length rs),
                    lastModified := millis clk,
                    version := version (metadata sheet) + 1\<rparr>\<rparr>;
              svc' = recordOperation (svc\<lparr>sheets := (sheets svc)(sheetId \<mapsto> sheet')\<rparr>) sheetId
                \<lparr>op_type = row_insert, op_sheetId = sheetId, op_userId = userId,
                 op_timestamp = millis clk,
                 op_data = RowInsertData (int (length rs) - 1) dat,
                 op_version = version (metadata sheet')\<rparr>
          in Inr (svc', sheet'))"

text \<open>
  \<^verbatim>\<open>s.replace(/\s+/g, '_')\<close>: every maximal run of white space becomes one underscore.
  The flag says whether the previous character was white space.
\<close>

fun replaceSpaceRuns :: "bool \<Rightarrow> string \<Rightarrow> string" where
  "replaceSpaceRuns inRun [] = []"
| "replaceSpaceRuns inRun (c # cs) =
     (if isSpace c then (if inRun then [] else ''_'') @ replaceSpaceRuns True cs
      else c # replaceSpaceRuns False cs)"

definition addColumn ::
  "clock \<Rightarrow> sheet_service \<Rightarrow> string \<Rightarrow> column_spec \<Rightarrow> string
   \<Rightarrow> error + (sheet_service \<times> sheet)" where
  "addColumn clk svc sheetId col userId =
     (case getSheet svc sheetId of
        Inl e \<Rightarrow> Inl e
      | Inr sheet \<Rightarrow>
          let newColumn = \<lparr>col_name = col_name col, col_type = col_type col,
                           editable = editable col, width = width col, options = options col,
                           enrichmentType = enrichmentType col,
                           col_id = replaceSpaceRuns False (toLowerCase (col_name col))\<rparr>;
              cols = columns sheet @ [newColumn];
              sheet' = sheet
                \<lparr>columns := cols,
                 metadata := (metadata sheet)
                   \<lparr>totalColumns := length cols,
                    lastModified := millis clk,
                    version := version (metadata sheet) + 1,
                    editableFields :=
                      (if editable newColumn
                       then editableFields (metadata sheet) @ [col_id newColumn]
                       else editableFields (metadata sheet))\<rparr>\<rparr>;
              svc' = recordOperation (svc\<lparr>sheets := (sheets svc)(sheetId \<mapsto> sheet')\<rparr>) sheetId
                \<lparr>op_type = column_insert, op_sheetId = sheetId, op_userId = userId,
                 op_timestamp = millis clk,
                 op_data = ColumnInsertData newColumn,
                 op_version = version (metadata sheet')\<rparr>
          in Inr (svc', sheet'))"

text \<open>The two shapes of cell that enrichment writes.\<close>

definition enrichedCell :: "jsval \<Rightarrow> cell" where
  "enrichedCell v = \<lparr>cell_value = v, isLoading = Some False, cell_metadata = None\<rparr>"

definition plainCell :: "jsval \<Rightarrow> cell" where
  "plainCell v = \<lparr>cell_value = v, isLoading = None, cell_metadata = None\<rparr>"

text \<open>
  The body of the inner \<^verbatim>\<open>Object.keys(enrichedFields).forEach\<close> of
  \<open>applyEnrichmentResults\<close>, for the row at index \<open>i\<close> of the array.
\<close>

definition applyEnrichedField ::
  "(string \<times> jsval) list \<Rightarrow> nat \<Rightarrow> string \<Rightarrow> sheet \<Rightarrow> sheet" where
  "applyEnrichedField enrichedFields i key sheet =
     (let v = getProp enrichedFields key in
      if v \<noteq> JUndefined \<and> v \<noteq> JNull then
        let sheet1 =
              (if find (\<lambda>col. col_id col = key) (columns sheet) = None then
                 let cols = columns sheet @ [mkColumn key (formatColumnName key) TEnriched False None]
                 in sheet\<lparr>columns := cols,
                          metadata := (metadata sheet)\<lparr>totalColumns := length cols\<rparr>\<rparr>
               else sheet)
        in sheet1\<lparr>rows := (rows sheet1)[i := (rows sheet1 ! i)(key \<mapsto> enrichedCell v)]\<rparr>
      else sheet)"

text \<open>The body of the outer \<^verbatim>\<open>results.forEach\<close>.\<close>

definition applyEnrichmentResult :: "clock \<Rightarrow> enrichment_result \<Rightarrow> sheet \<Rightarrow> sheet" where
  "applyEnrichmentResult clk result sheet =
     (case result_rowIndex result of
        None \<Rightarrow> sheet
      | Some rowIndex \<Rightarrow>
          if 0 \<le> rowIndex \<and> rowIndex < int (length (rows sheet)) then
            let i = nat rowIndex;
                enrichedFields = result_enrichedFields result;
                sheet1 = fold (applyEnrichedField enrichedFields i) (map fst enrichedFields) sheet;
                r = (rows sheet1 ! i)
                      (''_enriched'' \<mapsto> plainCell (JBool True),
                       ''_enriched_at'' \<mapsto> plainCell (JStr (iso clk)))
            in sheet1\<lparr>rows := (rows sheet1)[i := r]\<rparr>
          else sheet)"

definition applyEnrichmentResults ::
  "clock \<Rightarrow> sheet_service \<Rightarrow> string \<Rightarrow> enrichment_result list \<Rightarrow> string
   \<Rightarrow> error + (sheet_service \<times> sheet)" where
  "applyEnrichmentResults clk svc sheetId results userId =
     (case sheets svc sheetId of
        None \<Rightarrow> Inl (JsError (''Sheet '' @ sheetId @ '' not found''))
      | Some sheet \<Rightarrow>
          let sheet1 = fold (applyEnrichmentResult clk) results sheet;
              sheet' = sheet1
                \<lparr>metadata := (metadata sheet1)
                   \<lparr>lastModified := millis clk,
                    version := version (metadata sheet1) + 1\<rparr>\<rparr>;
              svc' = recordOperation (svc\<lparr>sheets := (sheets svc)(sheetId \<mapsto> sheet')\<rparr>) sheetId
                \<lparr>op_type = enrichment_update, op_sheetId = sheetId,
                 op_userId = ''enrichment_system'',
                 op_timestamp = millis clk,
                 op_data = EnrichmentUpdateData (map result_rowIndex results),
                 op_version = version (metadata sheet')\<rparr>
          in Inr (svc', sheet'))"

record simple_cell =
  sc_value :: jsval
  sc_isLoading :: bool

record sheet_data =
  sd_columns :: "column list"
  sd_rows :: "(string \<rightharpoonup> simple_cell) list"
  sd_metadata :: sheet_metadata

definition getSheetData :: "sheet_service \<Rightarrow> string \<Rightarrow> error + sheet_data" where
  "getSheetData svc sheetId =
     (case getSheet svc sheetId of
        Inl e \<Rightarrow> Inl e
      | Inr sheet \<Rightarrow>
          Inr \<lparr>sd_columns = columns sheet,
               sd_rows = map (\<lambda>r key. map_option
                                (\<lambda>c. \<lparr>sc_value = cell_value c,
                                       sc_isLoading = (case isLoading c of None \<Rightarrow> False
                                                        | Some b \<Rightarrow> b)\<rparr>)
                                (r key))
                             (rows sheet),
               sd_metadata = metadata sheet\<rparr>)"

text \<open>
  \<^verbatim>\<open>xs.slice(start)\<close>: a negative \<open>start\<close> counts from the end, and \<^verbatim>\<open>slice(-0)\<close> is
  \<^verbatim>\<open>slice(0)\<close>.
\<close>

definition sliceFrom :: "int \<Rightarrow> 'a list \<Rightarrow> 'a list" where
  "sliceFrom start xs =
     (if start < 0 then drop (nat (max (int (length xs) + start) 0)) xs
      else drop (nat start) xs)"

definition getOperationHistory :: "sheet_service \<Rightarrow> string \<Rightarrow> int \<Rightarrow> sheet_operation list" where
  "getOperationHistory svc sheetId limit =
     (let ops = (case operations svc sheetId of None \<Rightarrow> [] | Some os \<Rightarrow> os)
      in rev (sliceFrom (- limit) ops))"

text \<open>The \<open>simpleRow\<close> that both scans build from a row: each cell replaced by its value.\<close>

definition simpleRow :: "row \<Rightarrow> (string \<rightharpoonup> jsval)" where
  "simpleRow r = (\<lambda>key. map_option cell_value (r key))"

definition simpleProp :: "(string \<rightharpoonup> jsval) \<Rightarrow> string \<Rightarrow> jsval" where
  "simpleProp sr key = (case sr key of None \<Rightarrow> JUndefined | Some v \<Rightarrow> v)"

text \<open>\<^verbatim>\<open>simpleRow[cnpjField] && simpleRow[cnpjField].toString().trim() !== ''\<close>, as a condition.\<close>

definition hasCnpj :: "(string \<rightharpoonup> jsval) \<Rightarrow> string \<Rightarrow> bool" where
  "hasCnpj sr cnpjField \<longleftrightarrow>
     truthy (simpleProp sr cnpjField) \<and> trim (toStringJ (simpleProp sr cnpjField)) \<noteq> []"

text \<open>\<^verbatim>\<open>simpleRow['_enriched'] === true\<close>\<close>

definition isEnriched :: "(string \<rightharpoonup> jsval) \<Rightarrow> bool" where
  "isEnriched sr \<longleftrightarrow> simpleProp sr ''_enriched'' = JBool True"

record unenriched_row =
  ur_index :: nat
  ur_data :: "string \<rightharpoonup> jsval"

definition getUnenrichedRows ::
  "sheet_service \<Rightarrow> string \<Rightarrow> string \<Rightarrow> error + unenriched_row list" where
  "getUnenrichedRows svc sheetId cnpjField =
     (case sheets svc sheetId of
        None \<Rightarrow> Inl (JsError (''Sheet '' @ sheetId @ '' not found''))
      | Some sheet \<Rightarrow>
          Inr (map (\<lambda>(index, r). \<lparr>ur_index = index, ur_data = simpleRow r\<rparr>)
                 (filter (\<lambda>(index, r). hasCnpj (simpleRow r) cnpjField \<and> \<not> isEnriched (simpleRow r))
                    (enumerate 0 (rows sheet)))))"

record enrichment_stats =
  stats_total :: nat
  stats_enriched :: nat
  stats_unenriched :: nat
  stats_withCnpj :: nat

definition getEnrichmentStats ::
  "sheet_service \<Rightarrow> string \<Rightarrow> string \<Rightarrow> error + enrichment_stats" where
  "getEnrichmentStats svc sheetId cnpjField =
     (case sheets svc sheetId of
        None \<Rightarrow> Inl (JsError (''Sheet '' @ sheetId @ '' not found''))
      | Some sheet \<Rightarrow>
          let withCnpj = filter (\<lambda>r. hasCnpj (simpleRow r) cnpjField) (rows sheet)
          in Inr \<lparr>stats_total = length (rows sheet),
                  stats_enriched = length (filter (\<lambda>r. isEnriched (simpleRow r)) withCnpj),
                  stats_unenriched = length (filter (\<lambda>r. \<not> isEnriched (simpleRow r)) withCnpj),
                  stats_withCnpj = length withCnpj\<rparr>)"

definition loadingCell :: cell where
  "loadingCell = \<lparr>cell_value = JStr ''loading'', isLoading = Some True, cell_metadata = None\<rparr>"

text \<open>The body of \<^verbatim>\<open>rowIndices.forEach\<close> in \<open>markCellsAsLoading\<close>.\<close>

definition markRowAsLoading :: "string list \<Rightarrow> int \<Rightarrow> row list \<Rightarrow> row list" where
  "markRowAsLoading columnIds rowIndex rs =
     (if 0 \<le> rowIndex \<and> rowIndex < int (length rs)
      then rs[nat rowIndex := fold (\<lambda>columnId r. r(columnId \<mapsto> loadingCell)) columnIds
                                   (rs ! nat rowIndex)]
      else rs)"

definition markCellsAsLoading ::
  "clock \<Rightarrow> sheet_service \<Rightarrow> string \<Rightarrow> int list \<Rightarrow> string list \<Rightarrow> error + sheet_service" where
  "markCellsAsLoading clk svc sheetId rowIndices columnIds =
     (case sheets svc sheetId of
        None \<Rightarrow> Inl (JsError (''Sheet '' @ sheetId @ '' not found''))
      | Some sheet \<Rightarrow>
          let sheet' = sheet
                \<lparr>rows := fold (markRowAsLoading columnIds) rowIndices (rows sheet),
                 metadata := (metadata sheet)
                   \<lparr>version := version (metadata sheet) + 1,
                    lastModified := millis clk\<rparr>\<rparr>
          in Inr (svc\<lparr>sheets := (sheets svc)(sheetId \<mapsto> sheet')\<rparr>))"

subsection \<open>Sequences of mutating calls on one document\<close>

datatype mutation =
    UpdateCell jsnumber string jsval string
  | AddRow "(string \<times> jsval) list" string
  | AddColumn column_spec string
  | ApplyEnrichmentResults "enrichment_result list" string
  | MarkCellsAsLoading "int list" "string list"

text \<open>One mutating call on the document \<open>sheetId\<close>, keeping the store it leaves.\<close>

fun applyMutation :: "string \<Rightarrow> clock \<Rightarrow> mutation \<Rightarrow> sheet_service \<Rightarrow> error + sheet_service" where
  "applyMutation sheetId clk (UpdateCell rowIndex columnId v userId) svc =
     map_sum (\<lambda>e. e) fst (updateCell clk svc sheetId rowIndex columnId v userId)"
| "applyMutation sheetId clk (AddRow dat userId) svc =
     map_sum (\<lambda>e. e) fst (addRow clk svc sheetId dat userId)"
| "applyMutation sheetId clk (AddColumn col userId) svc =
     map_sum (\<lambda>e. e) fst (addColumn clk svc sheetId col userId)"
| "applyMutation sheetId clk (ApplyEnrichmentResults results userId) svc =
     map_sum (\<lambda>e. e) fst (applyEnrichmentResults clk svc sheetId results userId)"
| "applyMutation sheetId clk (MarkCellsAsLoading rowIndices columnIds) svc =
     markCellsAsLoading clk svc sheetId rowIndices columnIds"

text \<open>
  The stores a reader can observe along a sequence of calls: the one before the first
  call and the one after each accepted call, up to the first call that fails.
\<close>

fun observedStores ::
  "string \<Rightarrow> (clock \<times> mutation) list \<Rightarrow> sheet_service \<Rightarrow> sheet_service list" where
  "observedStores sheetId [] svc = [svc]"
| "observedStores sheetId ((clk, m) # ms) svc =
     svc # (case applyMutation sheetId clk m svc of
              Inl e \<Rightarrow> []
            | Inr svc' \<Rightarrow> observedStores sheetId ms svc')"

text \<open>The version of the document in a store; \<open>None\<close> when the store has no such document.\<close>

definition versionOf :: "string \<Rightarrow> sheet_service \<Rightarrow> int option" where
  "versionOf sheetId svc = map_option (\<lambda>sheet. version (metadata sheet)) (sheets svc sheetId)"

text \<open>The two counters of the metadata agree with the arrays they count.\<close>

definition countsAgree :: "sheet \<Rightarrow> bool" where
  "countsAgree sheet \<longleftrightarrow>
     totalRows (metadata sheet) = ofNat (length (rows sheet))
     \<and> totalColumns (metadata sheet) = length (columns sheet)"

text \<open>Row \<open>i\<close> of the sheet exists and the scans see it as enriched.\<close>

definition marked :: "sheet \<Rightarrow> nat \<Rightarrow> bool" where
  "marked sheet i \<longleftrightarrow> i < length (rows sheet) \<and> isEnriched (simpleRow (rows sheet ! i))"

text \<open>
  The calls that write the \<^verbatim>\<open>_enriched\<close> cell of row \<open>i\<close> with a value of the caller's:
  \<open>updateCell\<close> on that cell, and \<open>markCellsAsLoading\<close> with that row and that column.
\<close>

fun writesMarker :: "nat \<Rightarrow> mutation \<Rightarrow> bool" where
  "writesMarker i (UpdateCell rowIndex columnId v userId) =
     (rowIndex = ofNat i \<and> columnId = ''_enriched'')"
| "writesMarker i (MarkCellsAsLoading rowIndices columnIds) =
     (int i \<in> set rowIndices \<and> ''_enriched'' \<in> set columnIds)"
| "writesMarker i (AddRow dat userId) = False"
| "writesMarker i (AddColumn col userId) = False"
| "writesMarker i (ApplyEnrichmentResults res userId) = False"

text \<open>The one call that does not come back with a result on a document the store holds.\<close>

fun paddingHasNoEnd :: "mutation \<Rightarrow> bool" where
  "paddingHasNoEnd (UpdateCell rowIndex columnId v userId) = (rowIndex = PosInfinity)"
| "paddingHasNoEnd (AddRow dat userId) = False"
| "paddingHasNoEnd (AddColumn col userId) = False"
| "paddingHasNoEnd (ApplyEnrichmentResults res userId) = False"
| "paddingHasNoEnd (MarkCellsAsLoading rowIndices columnIds) = False"

text \<open>
  An integer as a number, and the calls whose row index is one: every call but an
  \<open>updateCell\<close> with a row index that is not integral, \<^verbatim>\<open>NaN\<close> or infinite.
\<close>

fun isInteger :: "jsnumber \<Rightarrow> bool" where
  "isInteger (Finite q) = (of_int \<lfloor>q\<rfloor> = q)"
| "isInteger NaN = False"
| "isInteger PosInfinity = False"
| "isInteger NegInfinity = False"

fun integerRowIndex :: "mutation \<Rightarrow> bool" where
  "integerRowIndex (UpdateCell rowIndex columnId v userId) = isInteger rowIndex"
| "integerRowIndex (AddRow dat userId) = True"
| "integerRowIndex (AddColumn col userId) = True"
| "integerRowIndex (ApplyEnrichmentResults res userId) = True"
| "integerRowIndex (MarkCellsAsLoading rowIndices columnIds) = True"

section \<open>The presence tracker (\<open>CollaborationService\<close>)\<close>

record cursor_position =
  pos_row :: int
  pos_column :: string

record cursor_selection =
  startRow :: int
  endRow :: int
  startColumn :: string
  endColumn :: string

record user_cursor =
  uc_userId :: string
  uc_userName :: string
  uc_color :: string
  uc_position :: cursor_position
  uc_selection :: "cursor_selection option"

datatype collaboration_event_type =
  user_joined | user_left | cursor_moved | cell_selected | operation_applied

datatype collaboration_event_data =
    JoinedData user_cursor "user_cursor list"
  | LeftData "user_cursor list"
  | CursorData user_cursor

record collaboration_event =
  ev_type :: collaboration_event_type
  ev_sheetId :: string
  ev_userId :: string
  ev_userName :: string
  ev_data :: collaboration_event_data
  ev_timestamp :: nat

text \<open>
  The five presence maps of the service. A JavaScript \<^verbatim>\<open>Map\<close> or \<^verbatim>\<open>Set\<close> whose
  iteration order or size is read is a list in insertion order; the outer maps are only
  looked up by key. (The broadcast callback and the operation history of the service play
  no part in joining and leaving.)
\<close>

record collaboration_service =
  activeUsers :: "string \<rightharpoonup> (string \<times> user_cursor) list"
  userSessions :: "string \<rightharpoonup> string list"
  sheetSessions :: "string \<rightharpoonup> string list"
  sheetUsers :: "string \<rightharpoonup> string list"
  userCursors :: "string \<rightharpoonup> (string \<times> user_cursor) list"

text \<open>The service as its constructor leaves it: every map empty.\<close>

definition newCollaborationService :: collaboration_service where
  "newCollaborationService =
     \<lparr>activeUsers = Map.empty, userSessions = Map.empty, sheetSessions = Map.empty,
      sheetUsers = Map.empty, userCursors = Map.empty\<rparr>"

definition colors :: "string list" where
  "colors =
     [''#FF6B6B'', ''#4ECDC4'', ''#45B7D1'', ''#96CEB4'', ''#FFEAA7'',
      ''#DDA0DD'', ''#98D8C8'', ''#F7DC6F'', ''#BB8FCE'', ''#85C1E9'',
      ''#F8C471'', ''#82E0AA'', ''#F1948A'', ''#85C1E9'', ''#D2B4DE'']"

text \<open>
  \<open>generateUserColor\<close>. \<^verbatim>\<open>((hash << 5) - hash + code) & 0xffffffff\<close> is arithmetic modulo
  \<open>2^32\<close> read back as a signed 32-bit integer.
\<close>

definition generateUserColor :: "string \<Rightarrow> string" where
  "generateUserColor userId =
     (let hash = fold (\<lambda>ch (h :: 32 word). push_bit 5 h - h + of_nat (of_char ch)) userId 0
      in colors ! (nat \<bar>sint hash\<bar> mod length colors))"

definition getActiveUsers :: "collaboration_service \<Rightarrow> string \<Rightarrow> user_cursor list" where
  "getActiveUsers c sheetId =
     (case activeUsers c sheetId of None \<Rightarrow> [] | Some m \<Rightarrow> map snd m)"

text \<open>\<^verbatim>\<open>Set.prototype.add\<close> on a set kept in insertion order.\<close>

definition setAdd :: "'a \<Rightarrow> 'a list \<Rightarrow> 'a list" where
  "setAdd x xs = (if x \<in> set xs then xs else xs @ [x])"

definition userJoinSheet ::
  "clock \<Rightarrow> collaboration_service \<Rightarrow> string \<Rightarrow> string \<Rightarrow> string \<Rightarrow> string
   \<Rightarrow> collaboration_service \<times> collaboration_event" where
  "userJoinSheet clk c sheetId userId userName socketId =
     (let active0 = (case activeUsers c sheetId of None \<Rightarrow> [] | Some m \<Rightarrow> m);
          session0 = (case sheetSessions c sheetId of None \<Rightarrow> [] | Some u \<Rightarrow> u);
          userSheets0 = (case userSessions c userId of None \<Rightarrow> [] | Some l \<Rightarrow> l);
          userSheets = (if sheetId \<in> set userSheets0 then userSheets0 else userSheets0 @ [sheetId]);
          cursor = \<lparr>uc_userId = userId, uc_userName = userName,
                    uc_color = generateUserColor userId,
                    uc_position = \<lparr>pos_row = 0, pos_column = ''nome''\<rparr>,
                    uc_selection = None\<rparr>;
          c' = c\<lparr>activeUsers := (activeUsers c)(sheetId \<mapsto> AList.update userId cursor active0),
                 sheetSessions := (sheetSessions c)(sheetId \<mapsto> setAdd userId session0),
                 userSessions := (userSessions c)(userId \<mapsto> userSheets)\<rparr>
      in (c', \<lparr>ev_type = user_joined, ev_sheetId = sheetId, ev_userId = userId,
                ev_userName = userName,
                ev_data = JoinedData cursor (getActiveUsers c' sheetId),
                ev_timestamp = millis clk\<rparr>))"

text \<open>
  \<open>userLeaveSheet\<close>. The result pairs the service as the call leaves it with either the
  exception thrown or the value returned (\<open>None\<close> for \<^verbatim>\<open>null\<close>). The non-null assertions
  \<^verbatim>\<open>this.sheetUsers.get(sheetId)!\<close> and \<^verbatim>\<open>this.userCursors.get(sheetId)!\<close> are erased by
  the compiler; calling \<^verbatim>\<open>delete\<close> on \<^verbatim>\<open>undefined\<close> throws a \<^verbatim>\<open>TypeError\<close>, after the
  removals before it have been made.
\<close>

definition userLeaveSheet ::
  "clock \<Rightarrow> collaboration_service \<Rightarrow> string \<Rightarrow> string
   \<Rightarrow> collaboration_service \<times> (error + collaboration_event option)" where
  "userLeaveSheet clk c sheetId userId =
     (case (sheetSessions c sheetId, userSessions c userId, activeUsers c sheetId) of
        (Some session0, Some userSheets0, Some active0) \<Rightarrow>
          let userName = (case map_of active0 userId of
                            None \<Rightarrow> ''Unknown User''
                          | Some cursor \<Rightarrow>
                              if uc_userName cursor = [] then ''Unknown User''
                              else uc_userName cursor);
              session1 = removeAll userId session0;
              active1 = AList.delete userId active0;
              userSheets1 = remove1 sheetId userSheets0;
              c1 = c\<lparr>sheetSessions := (sheetSessions c)(sheetId \<mapsto> session1),
                     activeUsers := (activeUsers c)(sheetId \<mapsto> active1),
                     userSessions := (userSessions c)(userId \<mapsto> userSheets1)\<rparr>
          in (case sheetUsers c1 sheetId of
                None \<Rightarrow>
                  (c1, Inl (TypeError ''Cannot read properties of undefined (reading 'delete')''))
              | Some su \<Rightarrow>
                  let c2 = c1\<lparr>sheetUsers := (sheetUsers c1)(sheetId \<mapsto> removeAll userId su)\<rparr>
                  in (case userCursors c2 sheetId of
                        None \<Rightarrow>
                          (c2, Inl (TypeError
                                 ''Cannot read properties of undefined (reading 'delete')''))
                      | Some uc \<Rightarrow>
                          let c3 = c2\<lparr>userCursors :=
                                        (userCursors c2)(sheetId \<mapsto> AList.delete userId uc)\<rparr>;
                              c4 = (if session1 = [] then
                                      c3\<lparr>sheetSessions := (sheetSessions c3)(sheetId := None),
                                         activeUsers := (activeUsers c3)(sheetId := None),
                                         sheetUsers := (sheetUsers c3)(sheetId := None),
                                         userCursors := (userCursors c3)(sheetId := None)\<rparr>
                                    else c3);
                              c5 = (if userSheets1 = [] then
                                      c4\<lparr>userSessions := (userSessions c4)(userId := None)\<rparr>
                                    else c4)
                          in (c5, Inr (Some \<lparr>ev_type = user_left, ev_sheetId = sheetId,
                                             ev_userId = userId, ev_userName = userName,
                                             ev_data = LeftData (getActiveUsers c5 sheetId),
                                             ev_timestamp = millis clk\<rparr>))))
      | _ \<Rightarrow> (c, Inr None))"

section \<open>The enrichment orchestrator (\<open>DataEnrichmentService\<close>)\<close>

datatype session_status = Pending | Processing | Completed | Cancelled | ErrorStatus

record enrichment_progress =
  processed :: nat
  progress_total :: nat
  percentage :: nat
  currentBatch :: nat

record enrichment_session =
  session_id :: string
  status :: session_status
  progress :: enrichment_progress
  results :: "enrichment_result list"
  startTime :: nat
  endTime :: "nat option"
  session_error :: "string option"

text \<open>\<open>cancelEnrichment\<close> on the session map of the service.\<close>

definition cancelEnrichment ::
  "clock \<Rightarrow> (string \<rightharpoonup> enrichment_session) \<Rightarrow> string \<Rightarrow> (string \<rightharpoonup> enrichment_session)" where
  "cancelEnrichment clk sessions sessionId =
     (case sessions sessionId of
        None \<Rightarrow> sessions
      | Some session \<Rightarrow>
          sessions(sessionId \<mapsto> session\<lparr>status := Cancelled, endTime := Some (millis clk)\<rparr>))"

text \<open>
  The options that the batch pipeline reads. A number that is absent or 0 is falsy and
  replaced by its default; \<^verbatim>\<open>originalIndices\<close> is \<open>None\<close> when absent.
\<close>

record enrichment_options =
  opt_batchSize :: nat
  opt_concurrency :: nat
  opt_originalIndices :: "int list option"

text \<open>\<^verbatim>\<open>options.batchSize || 50\<close> and \<^verbatim>\<open>options.concurrency || 3\<close>\<close>

definition batchSizeOr50 :: "enrichment_options \<Rightarrow> nat" where
  "batchSizeOr50 opts = (if opt_batchSize opts = 0 then 50 else opt_batchSize opts)"

definition concurrencyOr3 :: "enrichment_options \<Rightarrow> nat" where
  "concurrencyOr3 opts = (if opt_concurrency opts = 0 then 3 else opt_concurrency opts)"

text \<open>
  \<open>createBatches\<close>. With a batch size of 0 the loop of the source never advances; not
  returning is \<open>None\<close>.
\<close>

function createBatches :: "'a list \<Rightarrow> nat \<Rightarrow> 'a list list option" where
  "createBatches dat batchSize =
     (if batchSize = 0 then None
      else if dat = [] then Some []
      else map_option ((#) (take batchSize dat)) (createBatches (drop batchSize dat) batchSize))"
  by pat_completeness auto
termination
  by (relation "measure (\<lambda>(dat, batchSize). length dat)") auto

declare createBatches.simps [simp del]

text \<open>
  What is fixed for one run of \<open>startEnrichment\<close>: the session id, the batches, the
  options, and \<open>roundPercentage p t\<close> for the double-precision computation
  \<^verbatim>\<open>Math.round((p / t) * 100)\<close>.
\<close>

record run_params =
  rp_sessionId :: string
  rp_batches :: "jsval list list"
  rp_options :: enrichment_options
  roundPercentage :: "nat \<Rightarrow> nat \<Rightarrow> nat"

text \<open>
  A call of \<open>processBatch\<close> is either suspended at \<^verbatim>\<open>await this.performEnrichment(...)\<close>
  for the item at index \<open>i\<close>, holding the \<open>enrichedResults\<close> collected so far, or its
  promise has settled.
\<close>

datatype batch_task = Running nat "enrichment_result list" | Settled

text \<open>
  Where \<open>startEnrichment\<close> stands: suspended in \<open>processBatchesInParallel\<close> at
  \<^verbatim>\<open>await Promise.race\<close> or at \<^verbatim>\<open>await Promise.all\<close>, returned, or left by the exception
  it rethrows.
\<close>

datatype dispatcher_state = AwaitingRace | AwaitingAll | Returned | Threw string

datatype callback_call =
    OnProgress enrichment_progress
  | OnPartialResult "enrichment_result list"

text \<open>
  The state of one run on the event loop. \<open>tasks\<close> maps a batch number to its
  \<open>processBatch\<close> call; \<open>processingPromises\<close> is the array of that name, as batch numbers;
  \<open>loop_i\<close> is the loop variable of \<open>processBatchesInParallel\<close>; \<open>emitted\<close> lists the
  calls made to the two callbacks, which are taken to return normally. The session object
  is read through the map: nothing removes a session, and a run is alone on its id.
\<close>

record run_state =
  sessions :: "string \<rightharpoonup> enrichment_session"
  tasks :: "nat \<rightharpoonup> batch_task"
  processingPromises :: "nat list"
  loop_i :: nat
  dispatcher :: dispatcher_state
  emitted :: "callback_call list"

definition updateSession ::
  "run_params \<Rightarrow> (enrichment_session \<Rightarrow> enrichment_session) \<Rightarrow> run_state \<Rightarrow> run_state" where
  "updateSession P f st =
     (case sessions st (rp_sessionId P) of
        None \<Rightarrow> st
      | Some session \<Rightarrow> st\<lparr>sessions := (sessions st)(rp_sessionId P \<mapsto> f session)\<rparr>)"

definition sessionStatus :: "run_params \<Rightarrow> run_state \<Rightarrow> session_status option" where
  "sessionStatus P st = map_option status (sessions st (rp_sessionId P))"

text \<open>
  The end of \<open>processBatch\<close>, after its loop: a non-empty \<open>enrichedResults\<close> is appended to
  the session and handed to \<open>onPartialResult\<close>; the promise settles.
\<close>

definition finishBatch ::
  "run_params \<Rightarrow> nat \<Rightarrow> enrichment_result list \<Rightarrow> run_state \<Rightarrow> run_state" where
  "finishBatch P batchNumber enrichedResults st =
     (let st1 = (if enrichedResults \<noteq> [] then
                   (updateSession P (\<lambda>s. s\<lparr>results := results s @ enrichedResults\<rparr>) st)
                     \<lparr>emitted := emitted st @ [OnPartialResult enrichedResults]\<rparr>
                 else st)
      in st1\<lparr>tasks := (tasks st1)(batchNumber \<mapsto> Settled)\<rparr>)"

text \<open>
  The head of the item loop of \<open>processBatch\<close> at index \<open>i\<close>: leave the loop when the batch
  is exhausted or the session is cancelled, otherwise start the lookup of item \<open>i\<close> and
  suspend.
\<close>

definition batchLoop ::
  "run_params \<Rightarrow> nat \<Rightarrow> nat \<Rightarrow> enrichment_result list \<Rightarrow> run_state \<Rightarrow> run_state" where
  "batchLoop P batchNumber i enrichedResults st =
     (if i < length (rp_batches P ! (batchNumber - 1)) then
        if sessionStatus P st = Some Cancelled then finishBatch P batchNumber enrichedResults st
        else st\<lparr>tasks := (tasks st)(batchNumber \<mapsto> Running i enrichedResults)\<rparr>
      else finishBatch P batchNumber enrichedResults st)"

text \<open>
  \<open>processBatch\<close> from its call to its first suspension. It returns at once, its promise
  settled, when the session is missing or cancelled.
\<close>

definition processBatch :: "run_params \<Rightarrow> nat \<Rightarrow> run_state \<Rightarrow> run_state" where
  "processBatch P batchNumber st =
     (case sessions st (rp_sessionId P) of
        None \<Rightarrow> st\<lparr>tasks := (tasks st)(batchNumber \<mapsto> Settled)\<rparr>
      | Some session \<Rightarrow>
          if status session = Cancelled then st\<lparr>tasks := (tasks st)(batchNumber \<mapsto> Settled)\<rparr>
          else batchLoop P batchNumber 0 [] st)"

text \<open>
  The row index that \<open>processBatch\<close> gives the item at index \<open>i\<close> of batch \<open>batchNumber\<close>.
\<close>

definition originalIndex :: "run_params \<Rightarrow> nat \<Rightarrow> nat \<Rightarrow> int option" where
  "originalIndex P batchNumber i =
     (let k = (batchNumber - 1) * batchSizeOr50 (rp_options P) + i in
      case opt_originalIndices (rp_options P) of
        None \<Rightarrow> Some (int k)
      | Some ixs \<Rightarrow> if k < length ixs then Some (ixs ! k) else None)"

text \<open>
  \<open>processBatch\<close> resumed with the value of \<open>performEnrichment\<close> for item \<open>i\<close> (which
  never throws: a failed lookup is returned as an error payload): the result is pushed,
  the progress updated and reported, and the loop goes to its next head.
\<close>

definition resumeBatch ::
  "run_params \<Rightarrow> nat \<Rightarrow> nat \<Rightarrow> enrichment_result list \<Rightarrow> (string \<times> jsval) list
   \<Rightarrow> run_state \<Rightarrow> run_state" where
  "resumeBatch P batchNumber i enrichedResults enrichedData st =
     (let result = \<lparr>result_rowIndex = originalIndex P batchNumber i,
                    result_data = rp_batches P ! (batchNumber - 1) ! i,
                    result_enrichedFields = enrichedData\<rparr>;
          st1 = updateSession P
                  (\<lambda>s. s\<lparr>progress := (progress s)
                           \<lparr>processed := processed (progress s) + 1,
                            percentage := roundPercentage P (processed (progress s) + 1)
                                            (progress_total (progress s)),
                            currentBatch := batchNumber\<rparr>\<rparr>) st;
          st2 = (case sessions st1 (rp_sessionId P) of
                   None \<Rightarrow> st1
                 | Some s \<Rightarrow> st1\<lparr>emitted := emitted st1 @ [OnProgress (progress s)]\<rparr>)
      in batchLoop P batchNumber (i + 1) (enrichedResults @ [result]) st2)"

text \<open>
  What \<open>performEnrichment\<close> returns from its \<^verbatim>\<open>catch\<close> block, for an error with the
  given message whose \<^verbatim>\<open>response?.data?.code\<close> is \<open>code\<close> (\<open>JUndefined\<close> when
  absent).
\<close>

definition errorPayload :: "string \<Rightarrow> jsval \<Rightarrow> (string \<times> jsval) list" where
  "errorPayload message code =
     [(''error'', JBool True),
      (''error_message'', JStr message),
      (''error_code'', if truthy code then code else JStr ''ENRICHMENT_ERROR'')]"

text \<open>
  \<open>startEnrichment\<close> after \<^verbatim>\<open>await this.processBatchesInParallel(...)\<close> has returned: the
  session is marked completed.
\<close>

definition markCompleted :: "run_params \<Rightarrow> clock \<Rightarrow> run_state \<Rightarrow> run_state" where
  "markCompleted P clk st =
     (updateSession P
        (\<lambda>s. s\<lparr>status := Completed, endTime := Some (millis clk),
                progress := (progress s)\<lparr>percentage := 100\<rparr>\<rparr>) st)
       \<lparr>dispatcher := Returned\<rparr>"

text \<open>One iteration's launch: call \<open>processBatch\<close> for batch \<open>i + 1\<close>, push its promise.\<close>

definition launchBatch :: "run_params \<Rightarrow> nat \<Rightarrow> run_state \<Rightarrow> run_state" where
  "launchBatch P i st =
     (let st1 = processBatch P (i + 1) st
      in st1\<lparr>processingPromises := processingPromises st1 @ [i + 1]\<rparr>)"

definition anySettled :: "run_state \<Rightarrow> bool" where
  "anySettled st \<longleftrightarrow> (\<exists>b \<in> set (processingPromises st). tasks st b = Some Settled)"

definition allSettled :: "run_state \<Rightarrow> bool" where
  "allSettled st \<longleftrightarrow> (\<forall>b \<in> set (processingPromises st). tasks st b = Some Settled)"

text \<open>\<^verbatim>\<open>processingPromises.splice(0, 1)\<close>\<close>

definition spliceFirst :: "run_state \<Rightarrow> run_state" where
  "spliceFirst st = st\<lparr>processingPromises := drop 1 (processingPromises st)\<rparr>"

text \<open>
  The loop of \<open>processBatchesInParallel\<close> from the head of iteration \<open>i\<close>, run until the
  function suspends or returns; \<open>startEnrichment\<close> then goes on to \<open>markCompleted\<close>.
  \<^verbatim>\<open>await Promise.race\<close> goes on without leaving the event-loop turn when one of the
  promises has already settled.
\<close>

function dispatchLoop :: "run_params \<Rightarrow> clock \<Rightarrow> nat \<Rightarrow> run_state \<Rightarrow> run_state" where
  "dispatchLoop P clk i st =
     (if i < length (rp_batches P) then
        if sessionStatus P st = Some Cancelled then markCompleted P clk (st\<lparr>loop_i := i\<rparr>)
        else if length (processingPromises st) \<ge> concurrencyOr3 (rp_options P) then
          if anySettled st then dispatchLoop P clk (i + 1) (launchBatch P i (spliceFirst st))
          else st\<lparr>loop_i := i, dispatcher := AwaitingRace\<rparr>
        else dispatchLoop P clk (i + 1) (launchBatch P i st)
      else if allSettled st then markCompleted P clk (st\<lparr>loop_i := i\<rparr>)
      else st\<lparr>loop_i := i, dispatcher := AwaitingAll\<rparr>)"
  by pat_completeness auto
termination
  by (relation "measure (\<lambda>(P, clk, i, st). length (rp_batches P) - i)") auto

declare dispatchLoop.simps [simp del]

text \<open>\<open>processBatchesInParallel\<close> resumed after \<^verbatim>\<open>await Promise.race\<close>.\<close>

definition resumeAfterRace :: "run_params \<Rightarrow> clock \<Rightarrow> run_state \<Rightarrow> run_state" where
  "resumeAfterRace P clk st =
     dispatchLoop P clk (loop_i st + 1) (launchBatch P (loop_i st) (spliceFirst st))"

text \<open>
  \<open>processBatchesInParallel\<close> from its call. A missing session makes it throw; the
  handler of \<open>startEnrichment\<close> finds no session to mark and rethrows.
\<close>

definition processBatchesInParallel :: "run_params \<Rightarrow> clock \<Rightarrow> run_state \<Rightarrow> run_state" where
  "processBatchesInParallel P clk st =
     (case sessions st (rp_sessionId P) of
        None \<Rightarrow> st\<lparr>dispatcher := Threw ''Session not found''\<rparr>
      | Some session \<Rightarrow>
          dispatchLoop P clk 0 (updateSession P (\<lambda>s. s\<lparr>status := Processing\<rparr>) st))"

text \<open>
  \<open>startEnrichment\<close> from its call to its first suspension (or its return), on the session
  map \<open>sessions0\<close> of the service. \<open>None\<close> when \<open>createBatches\<close> does not return.
\<close>

definition startEnrichment ::
  "(nat \<Rightarrow> nat \<Rightarrow> nat) \<Rightarrow> clock \<Rightarrow> (string \<rightharpoonup> enrichment_session) \<Rightarrow> jsval list
   \<Rightarrow> enrichment_options \<Rightarrow> string \<Rightarrow> (run_params \<times> run_state) option" where
  "startEnrichment rnd clk sessions0 dat opts sessionId =
     (let session = \<lparr>session_id = sessionId, status = Pending,
                     progress = \<lparr>processed = 0, progress_total = length dat, percentage = 0,
                                 currentBatch = 0\<rparr>,
                     results = [], startTime = millis clk, endTime = None,
                     session_error = None\<rparr>;
          st0 = \<lparr>sessions = sessions0(sessionId \<mapsto> session), tasks = Map.empty,
                 processingPromises = [], loop_i = 0, dispatcher = AwaitingAll, emitted = []\<rparr>
      in case createBatches dat (batchSizeOr50 opts) of
           None \<Rightarrow> None
         | Some batches \<Rightarrow>
             let P = \<lparr>rp_sessionId = sessionId, rp_batches = batches, rp_options = opts,
                      roundPercentage = rnd\<rparr>
             in Some (P, processBatchesInParallel P clk st0))"

text \<open>
  What the event loop delivers while a run is suspended: a call of \<open>cancelEnrichment\<close>, or
  the outcome of the lookup that batch \<open>b\<close> is waiting for. A lookup is taken to complete
  in a later turn of the event loop, as a network request or a timer does; each event is
  followed by everything that runs before the loop is idle again.
\<close>

datatype loop_event =
    CancelRequested string
  | LookupReturned nat "(string \<times> jsval) list"

text \<open>
  After batch \<open>b\<close> has run: if its promise settled, a dispatcher that waits on it goes on.
\<close>

definition wakeDispatcher :: "run_params \<Rightarrow> clock \<Rightarrow> nat \<Rightarrow> run_state \<Rightarrow> run_state" where
  "wakeDispatcher P clk b st =
     (if tasks st b = Some Settled then
        (case dispatcher st of
           AwaitingRace \<Rightarrow>
             if b \<in> set (processingPromises st) then resumeAfterRace P clk st else st
         | AwaitingAll \<Rightarrow> if allSettled st then markCompleted P clk st else st
         | _ \<Rightarrow> st)
      else st)"

text \<open>
  One turn of the event loop. The outcome of a lookup is delivered only to a batch that is
  waiting for one; for any other batch number the state stays as it is.
\<close>

definition step :: "run_params \<Rightarrow> clock \<Rightarrow> loop_event \<Rightarrow> run_state \<Rightarrow> run_state" where
  "step P clk ev st =
     (case ev of
        CancelRequested sessionId \<Rightarrow> st\<lparr>sessions := cancelEnrichment clk (sessions st) sessionId\<rparr>
      | LookupReturned b enrichedData \<Rightarrow>
          (case tasks st b of
             Some (Running i enrichedResults) \<Rightarrow>
               wakeDispatcher P clk b (resumeBatch P b i enrichedResults enrichedData st)
           | _ \<Rightarrow> st))"

fun run :: "run_params \<Rightarrow> (clock \<times> loop_event) list \<Rightarrow> run_state \<Rightarrow> run_state" where
  "run P [] st = st"
| "run P ((clk, ev) # evs) st = run P evs (step P clk ev st)"


section \<open>Small examples\<close>

text \<open>
  A clock reading and a store holding one document of two rows, built by \<open>createSheet\<close>;
  the theorems below are instantiated on them.
\<close>

definition clockAt :: "nat \<Rightarrow> clock" where
  "clockAt t = \<lparr>millis = t, iso = ''2025-01-01T00:00:00.000Z'', pt_BR = ''01/01/2025, 00:00:00''\<rparr>"

definition exampleStore :: "sheet_service \<times> sheet" where
  "exampleStore =
     createSheet (\<lambda>s. False) (clockAt 0) ''s1'' \<lparr>sheets = Map.empty, operations = Map.empty\<rparr>
       ''Leads''
       (Some [[(''cnpj'', JStr ''11222333000181'')], [(''cnpj'', JStr ''11222333000199'')]])
       ''u1''"

text \<open>
  A run over two batches of two items with both batches dispatched, each waiting for the
  lookup of its first item, after \<open>cancelEnrichment\<close> has been called.
\<close>

definition cancelledRunParams :: run_params where
  "cancelledRunParams =
     \<lparr>rp_sessionId = ''s1'',
      rp_batches = [[JObj [(''cnpj'', JStr ''11222333000181'')], JObj [(''cnpj'', JStr ''11444777000161'')]],
                    [JObj [(''cnpj'', JStr ''11222333000181'')], JObj [(''cnpj'', JStr ''11444777000161'')]]],
      rp_options = \<lparr>opt_batchSize = 2, opt_concurrency = 2, opt_originalIndices = None\<rparr>,
      roundPercentage = (\<lambda>p t. (200 * p + t) div (2 * t))\<rparr>"

definition cancelledSession :: enrichment_session where
  "cancelledSession =
     \<lparr>session_id = ''s1'', status = Cancelled,
      progress = \<lparr>processed = 0, progress_total = 4, percentage = 0, currentBatch = 0\<rparr>,
      results = [], startTime = 0, endTime = Some 1, session_error = None\<rparr>"

definition cancelledRun :: run_state where
  "cancelledRun =
     \<lparr>sessions = [''s1'' \<mapsto> cancelledSession],
      tasks = [1 \<mapsto> Running 0 [], 2 \<mapsto> Running 0 []],
      processingPromises = [1, 2], loop_i = 2, dispatcher = AwaitingAll, emitted = []\<rparr>"

section \<open>Proofs: the tax-id validator\<close>

lemma digit_value_inj:
  "isDigit c \<Longrightarrow> isDigit d \<Longrightarrow> (of_char c :: nat) - 48 = of_char d - 48 \<Longrightarrow> c = d"
  by (auto simp: isDigit_def)

lemma weightedSum_digits:
  "n \<le> length cs \<Longrightarrow> \<forall>c \<in> set cs. isDigit c \<Longrightarrow>
   weightedSum cs ws n = Some (\<Sum>i<n. (of_char (cs ! i) - 48) * ws ! i)"
proof (induction n)
  case 0
  then show ?case by (simp add: weightedSum_def)
next
  case (Suc n)
  then have "weightedSum cs ws n = Some (\<Sum>i<n. (of_char (cs ! i) - 48) * ws ! i)"
    by simp
  moreover have "parseIntAt cs n = Some (of_char (cs ! n) - 48)"
    using Suc.prems by (simp add: parseIntAt_def)
  ultimately show ?case
    by (simp add: weightedSum_def)
qed

lemma zip_sum_nth:
  "length ws \<le> length ds \<Longrightarrow>
   sum_list (map (\<lambda>(w, d). w * d) (zip ws ds)) = (\<Sum>i<length ws. ds ! i * ws ! i :: nat)"
  by (simp add: sum_list_sum_nth atLeast0LessThan mult.commute)

lemma strip_all_digits: "\<forall>c \<in> set (stripNonDigits s). isDigit c"
  by (simp add: stripNonDigits_def)

lemma spec_digits_strip: "spec_digits s = map (\<lambda>c. of_char c - 48) (stripNonDigits s)"
  by (simp add: spec_digits_def stripNonDigits_def)

lemma allSameDigit_spec:
  assumes len: "length cs = 14" and dig: "\<forall>c \<in> set cs. isDigit c"
  shows "allSameDigit cs \<longleftrightarrow>
         (\<forall>d \<in> set (map (\<lambda>c. of_char c - 48 :: nat) cs). d = hd (map (\<lambda>c. of_char c - 48) cs))"
proof -
  from len obtain c cs' where cs: "cs = c # cs'" and len': "length cs' = 13"
    by (cases cs) auto
  have "(\<forall>x \<in> set cs'. x = c) \<longleftrightarrow> (\<forall>x \<in> set cs'. (of_char x :: nat) - 48 = of_char c - 48)"
    using dig cs by (auto dest: digit_value_inj)
  then show ?thesis
    using dig by (simp add: allSameDigit_def cs len')
qed

lemma spec_check_digit_sum:
  assumes "length ws \<le> length cs"
  shows "spec_check_digit ws (map (\<lambda>c. of_char c - 48) cs)
         = checkDigit (\<Sum>i<length ws. (of_char (cs ! i) - 48) * ws ! i)"
proof -
  have "sum_list (map (\<lambda>(w, d). w * d) (zip ws (map (\<lambda>c. of_char c - 48 :: nat) cs)))
        = (\<Sum>i<length ws. (map (\<lambda>c. of_char c - 48) cs) ! i * ws ! i)"
    using assms by (intro zip_sum_nth) simp
  also have "\<dots> = (\<Sum>i<length ws. (of_char (cs ! i) - 48) * ws ! i)"
    using assms by (intro sum.cong) auto
  finally show ?thesis
    by (simp add: spec_check_digit_def checkDigit_def Let_def)
qed

lemma checkDigits_spec:
  assumes len: "length cs = 14" and dig: "\<forall>c \<in> set cs. isDigit c"
  shows "validateCNPJCheckDigits cs \<longleftrightarrow>
         (map (\<lambda>c. of_char c - 48 :: nat) cs) ! 12
           = spec_check_digit [5, 4, 3, 2, 9, 8, 7, 6, 5, 4, 3, 2] (map (\<lambda>c. of_char c - 48) cs)
         \<and> (map (\<lambda>c. of_char c - 48 :: nat) cs) ! 13
           = spec_check_digit [6, 5, 4, 3, 2, 9, 8, 7, 6, 5, 4, 3, 2] (map (\<lambda>c. of_char c - 48) cs)"
proof -
  have s1: "weightedSum cs weights1 12 = Some (\<Sum>i<12. (of_char (cs ! i) - 48) * weights1 ! i)"
    using len dig by (intro weightedSum_digits) simp_all
  have s2: "weightedSum cs weights2 13 = Some (\<Sum>i<13. (of_char (cs ! i) - 48) * weights2 ! i)"
    using len dig by (intro weightedSum_digits) simp_all
  have p12: "parseIntAt cs 12 = Some (of_char (cs ! 12) - 48)"
    and p13: "parseIntAt cs 13 = Some (of_char (cs ! 13) - 48)"
    using len dig by (simp_all add: parseIntAt_def)
  have l1: "length weights1 = 12" and l2: "length weights2 = 13"
    by (simp_all add: weights1_def weights2_def)
  have c1: "spec_check_digit weights1 (map (\<lambda>c. of_char c - 48) cs)
            = checkDigit (\<Sum>i<12. (of_char (cs ! i) - 48) * weights1 ! i)"
  proof -
    have "length weights1 \<le> length cs" using len by (simp add: weights1_def)
    from spec_check_digit_sum [OF this] show ?thesis unfolding l1 .
  qed
  have c2: "spec_check_digit weights2 (map (\<lambda>c. of_char c - 48) cs)
            = checkDigit (\<Sum>i<13. (of_char (cs ! i) - 48) * weights2 ! i)"
  proof -
    have "length weights2 \<le> length cs" using len by (simp add: weights2_def)
    from spec_check_digit_sum [OF this] show ?thesis unfolding l2 .
  qed
  have "validateCNPJCheckDigits cs \<longleftrightarrow>
        (of_char (cs ! 12) - 48 :: nat) = spec_check_digit weights1 (map (\<lambda>c. of_char c - 48) cs)
        \<and> (of_char (cs ! 13) - 48 :: nat) = spec_check_digit weights2 (map (\<lambda>c. of_char c - 48) cs)"
    unfolding validateCNPJCheckDigits_def s1 s2 p12 p13 c1 c2 by auto
  moreover have "map (\<lambda>c. of_char c - 48 :: nat) cs ! 12 = of_char (cs ! 12) - 48"
    and "map (\<lambda>c. of_char c - 48 :: nat) cs ! 13 = of_char (cs ! 13) - 48"
    using len by simp_all
  ultimately show ?thesis
    unfolding weights1_def weights2_def by simp
qed

lemma validate_eq_spec: "validateCNPJFormat s = spec_valid_tax_id s"
proof (cases "length (stripNonDigits s) = 14")
  case False
  then show ?thesis
    by (simp add: validateCNPJFormat_def spec_valid_tax_id_def spec_digits_strip Let_def)
next
  case True
  note a = allSameDigit_spec [OF True strip_all_digits]
  note c = checkDigits_spec [OF True strip_all_digits]
  show ?thesis
    unfolding validateCNPJFormat_def spec_valid_tax_id_def spec_digits_strip Let_def
    using True a c by simp
qed


lemma all_same_rejected:
  assumes "\<forall>c \<in> set (stripNonDigits u). c = hd (stripNonDigits u)"
  shows "\<not> validateCNPJFormat u"
proof (cases "length (stripNonDigits u) = 14")
  case False
  then show ?thesis by (simp add: validateCNPJFormat_def Let_def)
next
  case True
  then obtain c cs where cs: "stripNonDigits u = c # cs" and len: "length cs = 13"
    by (cases "stripNonDigits u") auto
  have "isDigit c" using strip_all_digits [of u] cs by simp
  with assms cs len have "allSameDigit (stripNonDigits u)"
    by (simp add: allSameDigit_def)
  then show ?thesis by (simp add: validateCNPJFormat_def Let_def)
qed

text \<open>
  Claim C4. \<open>validateCNPJFormat\<close> accepts a string exactly when the specification's
  validator does: after deleting the non-digits there are exactly 14 digits, they are not
  all the same, and both check digits are right under the weighted sums modulo 11. The
  formatted and the bare form of \<open>11.222.333/0001-81\<close> are both accepted; a string with
  13 digits and a string whose digits are all the same are rejected.
\<close>

theorem tax_id_validator_correct:
  "(validateCNPJFormat s \<longleftrightarrow> spec_valid_tax_id s)
   \<and> validateCNPJFormat ''11.222.333/0001-81'' \<and> validateCNPJFormat ''11222333000181''
   \<and> (length (stripNonDigits t) = 13 \<longrightarrow> \<not> validateCNPJFormat t)
   \<and> ((\<forall>c \<in> set (stripNonDigits u). c = hd (stripNonDigits u)) \<longrightarrow> \<not> validateCNPJFormat u)"
proof -
  have a: "validateCNPJFormat ''11.222.333/0001-81''" by code_simp
  have b: "validateCNPJFormat ''11222333000181''" by code_simp
  have c: "length (stripNonDigits t) = 13 \<longrightarrow> \<not> validateCNPJFormat t"
    by (simp add: validateCNPJFormat_def Let_def)
  show ?thesis using validate_eq_spec [of s] a b c all_same_rejected [of u] by blast
qed

theorem tax_id_validator_correct_witness:
  "spec_valid_tax_id ''11.222.333/0001-81''
   \<and> length (stripNonDigits ''1122233300018'') = 13
   \<and> \<not> validateCNPJFormat ''1122233300018''
   \<and> stripNonDigits ''11.111.111/1111-11'' = ''11111111111111''
   \<and> \<not> validateCNPJFormat ''11.111.111/1111-11''"
proof -
  have h1: "length (stripNonDigits ''1122233300018'') = 13" by code_simp
  have h2: "stripNonDigits ''11.111.111/1111-11'' = ''11111111111111''"
    by (simp add: stripNonDigits_def isDigit_def)
  have h3: "\<forall>c \<in> set (stripNonDigits ''11.111.111/1111-11'').
              c = hd (stripNonDigits ''11.111.111/1111-11'')"
    unfolding h2 by simp
  show ?thesis
    using tax_id_validator_correct
            [of "''11.222.333/0001-81''" "''1122233300018''" "''11.111.111/1111-11''"] h1 h2 h3
    by blast
qed

section \<open>Proofs: unknown documents\<close>

text \<open>
  Against claim C8 as stated: asked for the history of a document that the store does not
  hold, \<open>getOperationHistory\<close> returns the empty list; it does not fail.
\<close>

theorem history_of_unknown_sheet_counterexample:
  "getOperationHistory \<lparr>sheets = Map.empty, operations = Map.empty\<rparr> ''no-such-sheet'' 100 = []"
  by (simp add: getOperationHistory_def sliceFrom_def)

text \<open>
  Claim C8, amended. On a document id that the store does not hold, \<open>getSheet\<close>,
  \<open>getSheetData\<close>, \<open>updateCell\<close>, \<open>addRow\<close> and \<open>addColumn\<close> fail with a
  \<open>NotFoundException\<close>; \<open>applyEnrichmentResults\<close>, \<open>getUnenrichedRows\<close>,
  \<open>getEnrichmentStats\<close> and \<open>markCellsAsLoading\<close> fail with a plain error whose message
  says that the sheet was not found; \<open>getOperationHistory\<close> does not fail and returns the
  empty list (no operations being recorded under that id).
\<close>

theorem unknown_sheet_failures:
  assumes "sheets svc sheetId = None"
  shows "getSheet svc sheetId = Inl (NotFoundException (''Sheet with ID '' @ sheetId @ '' not found''))
    \<and> getSheetData svc sheetId = Inl (NotFoundException (''Sheet with ID '' @ sheetId @ '' not found''))
    \<and> updateCell clk svc sheetId rowIndex columnId v userId
        = Inl (NotFoundException (''Sheet with ID '' @ sheetId @ '' not found''))
    \<and> addRow clk svc sheetId dat userId
        = Inl (NotFoundException (''Sheet with ID '' @ sheetId @ '' not found''))
    \<and> addColumn clk svc sheetId col userId
        = Inl (NotFoundException (''Sheet with ID '' @ sheetId @ '' not found''))
    \<and> applyEnrichmentResults clk svc sheetId res userId
        = Inl (JsError (''Sheet '' @ sheetId @ '' not found''))
    \<and> getUnenrichedRows svc sheetId cnpjField = Inl (JsError (''Sheet '' @ sheetId @ '' not found''))
    \<and> getEnrichmentStats svc sheetId cnpjField = Inl (JsError (''Sheet '' @ sheetId @ '' not found''))
    \<and> markCellsAsLoading clk svc sheetId rowIndices columnIds
        = Inl (JsError (''Sheet '' @ sheetId @ '' not found''))
    \<and> (operations svc sheetId = None \<longrightarrow> getOperationHistory svc sheetId limit = [])"
  using assms
  by (simp add: getSheet_def getSheetData_def updateCell_def addRow_def addColumn_def
      applyEnrichmentResults_def getUnenrichedRows_def getEnrichmentStats_def
      markCellsAsLoading_def getOperationHistory_def sliceFrom_def)

theorem unknown_sheet_failures_witness:
  "sheets \<lparr>sheets = Map.empty, operations = Map.empty\<rparr> ''x'' = None
   \<and> operations \<lparr>sheets = Map.empty, operations = Map.empty\<rparr> ''x'' = None
   \<and> getSheet \<lparr>sheets = Map.empty, operations = Map.empty\<rparr> ''x''
       = Inl (NotFoundException ''Sheet with ID x not found'')
   \<and> getUnenrichedRows \<lparr>sheets = Map.empty, operations = Map.empty\<rparr> ''x'' ''cnpj''
       = Inl (JsError ''Sheet x not found'')
   \<and> getOperationHistory \<lparr>sheets = Map.empty, operations = Map.empty\<rparr> ''x'' 10 = []"
  using unknown_sheet_failures [of "\<lparr>sheets = Map.empty, operations = Map.empty\<rparr>" "''x''"
          _ _ _ _ _ _ _ _ "''cnpj''" _ _ 10]
  by simp

section \<open>Proofs: leaving a document\<close>

text \<open>
  Claim C5 fails on the code. \<open>userJoinSheet\<close> never fills the maps \<open>sheetUsers\<close> and
  \<open>userCursors\<close>, which \<open>userLeaveSheet\<close> dereferences: a user who joined a document on a
  fresh service and then leaves it gets a \<open>TypeError\<close>, not a \<open>user_left\<close> event. The
  user has been removed by then, and the emptied entries of the document stay behind.
\<close>

theorem leave_after_join_throws:
  "snd (userLeaveSheet clk2
          (fst (userJoinSheet clk1 newCollaborationService sheetId userId userName socketId))
          sheetId userId)
   = Inl (TypeError ''Cannot read properties of undefined (reading 'delete')'')
   \<and> getActiveUsers
        (fst (userLeaveSheet clk2
                (fst (userJoinSheet clk1 newCollaborationService sheetId userId userName socketId))
                sheetId userId))
        sheetId = []
   \<and> sheetSessions
        (fst (userLeaveSheet clk2
                (fst (userJoinSheet clk1 newCollaborationService sheetId userId userName socketId))
                sheetId userId))
        sheetId = Some []"
  by (simp add: userLeaveSheet_def userJoinSheet_def newCollaborationService_def Let_def
      getActiveUsers_def setAdd_def)

section \<open>Proofs: cancelling an enrichment session\<close>

text \<open>
  Against claim C6 as stated: cancelling a session that has completed changes its status
  to cancelled and its end time to the time of the call.
\<close>

theorem cancel_finished_session_counterexample:
  "map_option (\<lambda>s. (status s, endTime s))
     (cancelEnrichment \<lparr>millis = 9, iso = [], pt_BR = []\<rparr>
        [''s1'' \<mapsto> \<lparr>session_id = ''s1'', status = Completed,
                     progress = \<lparr>processed = 2, progress_total = 2, percentage = 100,
                                 currentBatch = 1\<rparr>,
                     results = [], startTime = 1, endTime = Some 5, session_error = None\<rparr>]
        ''s1'' ''s1'')
   = Some (Cancelled, Some 9)"
  by (simp add: cancelEnrichment_def)

text \<open>
  Claim C6, amended. \<open>cancelEnrichment\<close> on the id of an existing session, whatever the
  status of the session, sets the status to cancelled and the end time to the time of the
  call, and leaves the progress, the results and every other session as they were; it is a
  no-op only when no session has the id.
\<close>

theorem cancelEnrichment_overwrites:
  "(sessions0 sessionId = Some session \<longrightarrow>
      cancelEnrichment clk sessions0 sessionId
      = sessions0(sessionId \<mapsto> session\<lparr>status := Cancelled, endTime := Some (millis clk)\<rparr>))
   \<and> (sessions0 sessionId = Some session \<longrightarrow>
      (\<exists>s'. cancelEnrichment clk sessions0 sessionId sessionId = Some s'
            \<and> status s' = Cancelled \<and> endTime s' = Some (millis clk)
            \<and> progress s' = progress session \<and> results s' = results session))
   \<and> (sessions0 sessionId = None \<longrightarrow> cancelEnrichment clk sessions0 sessionId = sessions0)"
  by (simp add: cancelEnrichment_def)

theorem cancelEnrichment_overwrites_witness:
  "(\<exists>s'. cancelEnrichment \<lparr>millis = 9, iso = [], pt_BR = []\<rparr>
        [''s1'' \<mapsto> \<lparr>session_id = ''s1'', status = ErrorStatus,
                     progress = \<lparr>processed = 1, progress_total = 2, percentage = 50,
                                 currentBatch = 1\<rparr>,
                     results = [], startTime = 1, endTime = Some 5, session_error = Some ''boom''\<rparr>]
        ''s1'' ''s1'' = Some s' \<and> status s' = Cancelled \<and> endTime s' = Some 9)
   \<and> cancelEnrichment \<lparr>millis = 9, iso = [], pt_BR = []\<rparr> Map.empty ''s1'' = Map.empty"
  using cancelEnrichment_overwrites
          [of "[''s1'' \<mapsto> \<lparr>session_id = ''s1'', status = ErrorStatus,
                     progress = \<lparr>processed = 1, progress_total = 2, percentage = 50,
                                 currentBatch = 1\<rparr>,
                     results = [], startTime = 1, endTime = Some 5, session_error = Some ''boom''\<rparr>]"
              "''s1''" _ "\<lparr>millis = 9, iso = [], pt_BR = []\<rparr>"]
        cancelEnrichment_overwrites [of Map.empty "''s1''" _ "\<lparr>millis = 9, iso = [], pt_BR = []\<rparr>"]
  by simp

section \<open>Proofs: cancellation during a run\<close>

text \<open>\<open>startEnrichment\<close> always reaches its first suspension: \<open>createBatches\<close> returns.\<close>

lemma createBatches_returns:
  "0 < batchSize \<Longrightarrow> \<exists>batches. createBatches dat batchSize = Some batches"
proof (induction dat batchSize rule: createBatches.induct)
  case (1 dat batchSize)
  show ?case
  proof (cases "dat = []")
    case True
    with "1.prems" show ?thesis by (subst createBatches.simps) simp
  next
    case False
    with "1.IH" "1.prems" obtain rest where "createBatches (drop batchSize dat) batchSize = Some rest"
      by auto
    with False "1.prems" show ?thesis by (subst createBatches.simps) simp
  qed
qed

lemma startEnrichment_returns:
  "\<exists>P st. startEnrichment rnd clk sessions0 dat opts sessionId = Some (P, st)"
proof -
  have "0 < batchSizeOr50 opts" by (simp add: batchSizeOr50_def)
  from createBatches_returns [OF this, of dat]
  show ?thesis by (auto simp: startEnrichment_def Let_def)
qed

lemma createBatches_two_by_one:
  "createBatches [a, b] (Suc 0) = Some [[a], [b]]"
  by (simp add: createBatches.simps [of "[a, b]"] createBatches.simps [of "[b]"]
      createBatches.simps [of "[]"])


lemmas run_defs =
  startEnrichment_def processBatchesInParallel_def updateSession_def sessionStatus_def
  batchSizeOr50_def concurrencyOr3_def launchBatch_def processBatch_def batchLoop_def
  finishBatch_def markCompleted_def anySettled_def allSettled_def spliceFirst_def
  resumeAfterRace_def resumeBatch_def wakeDispatcher_def step_def cancelEnrichment_def
  originalIndex_def

text \<open>
  Claim C2 fails on the code. Two items in batches of one, one batch at a time: the
  session is processing once the first lookup is under way; \<open>cancelEnrichment\<close> called then
  makes it cancelled; when the lookup returns, the second batch is skipped,
  \<open>processBatchesInParallel\<close> returns and \<open>startEnrichment\<close> marks the session completed.
\<close>

theorem cancelled_session_ends_completed:
  "(case startEnrichment rnd clk0 Map.empty [a, b]
           \<lparr>opt_batchSize = 1, opt_concurrency = 1, opt_originalIndices = None\<rparr> sid of
      None \<Rightarrow> False
    | Some (P, st0) \<Rightarrow>
        sessionStatus P st0 = Some Processing
        \<and> sessionStatus P (run P [(clk1, CancelRequested sid)] st0) = Some Cancelled
        \<and> sessionStatus P (run P [(clk1, CancelRequested sid), (clk2, LookupReturned 1 payload)] st0)
            = Some Completed)"
  by (simp add: run_defs createBatches_two_by_one dispatchLoop.simps Let_def)


lemma tasks_markCompleted [simp]: "tasks (markCompleted P clk st) = tasks st"
  by (simp add: markCompleted_def updateSession_def split: option.splits)









text \<open>The cancelled run of the examples is what a start followed by a cancellation gives.\<close>

lemma createBatches_four_by_two:
  "createBatches [a, b, c, d] 2 = Some [[a, b], [c, d]]"
  by (simp add: createBatches.simps [of "[a, b, c, d]"] createBatches.simps [of "[c, d]"]
      createBatches.simps [of "[]"])

lemma cancelledRun_reached:
  "(case startEnrichment (\<lambda>p t. (200 * p + t) div (2 * t)) (clockAt 0) Map.empty
           [JObj [(''cnpj'', JStr ''11222333000181'')], JObj [(''cnpj'', JStr ''11444777000161'')],
            JObj [(''cnpj'', JStr ''11222333000181'')], JObj [(''cnpj'', JStr ''11444777000161'')]]
           \<lparr>opt_batchSize = 2, opt_concurrency = 2, opt_originalIndices = None\<rparr> ''s1'' of
      None \<Rightarrow> False
    | Some (P, st0) \<Rightarrow>
        P = cancelledRunParams \<and> step P (clockAt 1) (CancelRequested ''s1'') st0 = cancelledRun)"
  by (simp add: run_defs createBatches_four_by_two dispatchLoop.simps Let_def clockAt_def
      cancelledRunParams_def cancelledRun_def cancelledSession_def)
     (simp add: eval_nat_numeral)


text \<open>
  The condition on the status cannot be dropped. With five items, batches of two and two
  batches at a time, a cancellation followed by the return of the second batch's lookup
  lets \<open>startEnrichment\<close> mark the session completed while the first batch still waits;
  when its lookup returns the session is no longer cancelled and the batch goes on to its
  second item.
\<close>

lemma createBatches_five_by_two:
  "createBatches [a, b, c, d, e] 2 = Some [[a, b], [c, d], [e]]"
  by (simp add: createBatches.simps [of "[a, b, c, d, e]"] createBatches.simps [of "[c, d, e]"]
      createBatches.simps [of "[e]"] createBatches.simps [of "[]"])

lemma batch_runs_on_once_marked_completed:
  "(case startEnrichment rnd clk0 Map.empty [a, b, c, d, e]
           \<lparr>opt_batchSize = 2, opt_concurrency = 2, opt_originalIndices = None\<rparr> sid of
      None \<Rightarrow> False
    | Some (P, st0) \<Rightarrow>
        (let st = run P [(clk1, CancelRequested sid), (clk2, LookupReturned 2 p2)] st0;
             st' = step P clk3 (LookupReturned 1 p1) st
         in sessionStatus P st = Some Completed
            \<and> tasks st 1 = Some (Running 0 [])
            \<and> (\<exists>r. tasks st' 1 = Some (Running 1 [r]))))"
  by (simp add: run_defs createBatches_five_by_two dispatchLoop.simps Let_def)

section \<open>Proofs: the document store\<close>

subsection \<open>Effects of the single operations\<close>

lemma sheets_recordOperation [simp]: "sheets (recordOperation svc sheetId operation) = sheets svc"
  by (simp add: recordOperation_def Let_def)

lemma padRows_grows:
  "padRows rs x = Some rs' \<Longrightarrow>
   length rs \<le> length rs' \<and> (\<forall>i < length rs. rs' ! i = rs ! i) \<and> \<not> lengthLe (length rs') x"
proof (induction rs x arbitrary: rs' rule: padRows.induct)
  case (1 rs q)
  show ?case
  proof (cases "lengthLe (length rs) (Finite q)")
    case True
    with "1.prems" have p: "padRows (rs @ [Map.empty]) (Finite q) = Some rs'"
      by (simp add: padRows.simps(1))
    from "1.IH" [OF True p] show ?thesis by (auto simp: nth_append)
  next
    case False
    with "1.prems" show ?thesis by (simp add: padRows.simps(1))
  qed
qed simp_all

lemma padRows_returns: "x \<noteq> PosInfinity \<Longrightarrow> \<exists>rs'. padRows rs x = Some rs'"
proof (induction rs x rule: padRows.induct)
  case (1 rs q)
  then show ?case by (cases "lengthLe (length rs) (Finite q)") (simp_all add: padRows.simps(1))
qed simp_all

lemma of_nat_le_of_int_rat: "(of_nat k :: rat) \<le> of_int n \<longleftrightarrow> int k \<le> n"
proof -
  have "(of_nat k :: rat) = of_int (int k)" by simp
  then show ?thesis by (simp only: of_int_le_iff)
qed

lemma padRows_integer_length:
  "padRows rs (Finite (of_int n)) = Some rs' \<Longrightarrow> int (length rs') = max (int (length rs)) (n + 1)"
proof (induction rs "Finite (of_int n)" arbitrary: rs' rule: padRows.induct)
  case (1 rs)
  show ?case
  proof (cases "lengthLe (length rs) (Finite (of_int n))")
    case True
    with "1.prems" have p: "padRows (rs @ [Map.empty]) (Finite (of_int n)) = Some rs'"
      by (simp add: padRows.simps(1))
    from True have "int (length rs) \<le> n" by (simp add: of_nat_le_of_int_rat)
    with "1.hyps" [OF True p] show ?thesis by (simp add: max_def)
  next
    case False
    then have "n < int (length rs)" by (simp add: of_nat_le_of_int_rat not_le)
    with False "1.prems" show ?thesis by (simp add: padRows.simps(1) max_def)
  qed
qed

lemma arrayIndex_ofNat: "arrayIndex x = Some n \<Longrightarrow> x = ofNat n"
  by (cases x) (auto simp: ofNat_def split: if_splits)

lemma arrayIndex_in_range:
  "arrayIndex x = Some n \<Longrightarrow> padRows rs x = Some rs' \<Longrightarrow> n < length rs'"
  using padRows_grows [of rs x rs'] by (auto dest!: arrayIndex_ofNat simp: ofNat_def not_le)

lemma isInteger_cases: "isInteger x \<Longrightarrow> \<exists>n. x = Finite (of_int n)"
  by (cases x) (auto intro: exI [of _ "\<lfloor>_\<rfloor>"] simp: eq_commute)

subsection \<open>Applying enrichment results\<close>

lemma applyEnrichedField_version [simp]:
  "version (metadata (applyEnrichedField ef i key sheet)) = version (metadata sheet)"
  by (simp add: applyEnrichedField_def Let_def)

lemma applyEnrichedField_length [simp]:
  "length (rows (applyEnrichedField ef i key sheet)) = length (rows sheet)"
  by (simp add: applyEnrichedField_def Let_def)

lemma applyEnrichedField_totalRows [simp]:
  "totalRows (metadata (applyEnrichedField ef i key sheet)) = totalRows (metadata sheet)"
  by (simp add: applyEnrichedField_def Let_def)

lemma applyEnrichedField_columns:
  "totalColumns (metadata sheet) = length (columns sheet) \<Longrightarrow>
   totalColumns (metadata (applyEnrichedField ef i key sheet))
   = length (columns (applyEnrichedField ef i key sheet))"
  by (simp add: applyEnrichedField_def Let_def)

lemma applyEnrichedField_other_row:
  "j \<noteq> i \<Longrightarrow> rows (applyEnrichedField ef i key sheet) ! j = rows sheet ! j"
  by (simp add: applyEnrichedField_def Let_def)

lemma fold_applyEnrichedField:
  "version (metadata (fold (applyEnrichedField ef i) keys sheet)) = version (metadata sheet)
   \<and> length (rows (fold (applyEnrichedField ef i) keys sheet)) = length (rows sheet)
   \<and> totalRows (metadata (fold (applyEnrichedField ef i) keys sheet)) = totalRows (metadata sheet)
   \<and> (\<forall>j. j \<noteq> i \<longrightarrow> rows (fold (applyEnrichedField ef i) keys sheet) ! j = rows sheet ! j)
   \<and> (totalColumns (metadata sheet) = length (columns sheet) \<longrightarrow>
        totalColumns (metadata (fold (applyEnrichedField ef i) keys sheet))
        = length (columns (fold (applyEnrichedField ef i) keys sheet)))"
proof (induction keys arbitrary: sheet)
  case Nil
  show ?case by simp
next
  case (Cons k ks)
  show ?case
    using Cons.IH [of "applyEnrichedField ef i k sheet"]
    by (simp add: applyEnrichedField_other_row applyEnrichedField_columns)
qed

lemma applyEnrichmentResult_props:
  "version (metadata (applyEnrichmentResult clk r sheet)) = version (metadata sheet)
   \<and> length (rows (applyEnrichmentResult clk r sheet)) = length (rows sheet)
   \<and> totalRows (metadata (applyEnrichmentResult clk r sheet)) = totalRows (metadata sheet)
   \<and> (totalColumns (metadata sheet) = length (columns sheet) \<longrightarrow>
        totalColumns (metadata (applyEnrichmentResult clk r sheet))
        = length (columns (applyEnrichmentResult clk r sheet)))"
  using fold_applyEnrichedField
  by (simp add: applyEnrichmentResult_def Let_def split: option.splits)

lemma applyEnrichmentResult_marked:
  "marked sheet j \<Longrightarrow> marked (applyEnrichmentResult clk r sheet) j"
  using fold_applyEnrichedField
  by (cases "result_rowIndex r")
     (auto simp: applyEnrichmentResult_def Let_def marked_def isEnriched_def simpleRow_def
        simpleProp_def plainCell_def nth_list_update)

lemma applyEnrichmentResult_marks:
  "result_rowIndex r = Some i \<Longrightarrow> 0 \<le> i \<Longrightarrow> i < int (length (rows sheet)) \<Longrightarrow>
   marked (applyEnrichmentResult clk r sheet) (nat i)"
  using fold_applyEnrichedField
  by (auto simp: applyEnrichmentResult_def Let_def marked_def isEnriched_def simpleRow_def
        simpleProp_def plainCell_def)

lemma fold_applyEnrichmentResult_props:
  "version (metadata (fold (applyEnrichmentResult clk) res sheet)) = version (metadata sheet)
   \<and> length (rows (fold (applyEnrichmentResult clk) res sheet)) = length (rows sheet)
   \<and> totalRows (metadata (fold (applyEnrichmentResult clk) res sheet)) = totalRows (metadata sheet)
   \<and> (totalColumns (metadata sheet) = length (columns sheet) \<longrightarrow>
        totalColumns (metadata (fold (applyEnrichmentResult clk) res sheet))
        = length (columns (fold (applyEnrichmentResult clk) res sheet)))"
proof (induction res arbitrary: sheet)
  case Nil
  show ?case by simp
next
  case (Cons r rs)
  show ?case
    using Cons.IH [of "applyEnrichmentResult clk r sheet"] applyEnrichmentResult_props [of clk r sheet]
    by simp
qed

lemma fold_applyEnrichmentResult_marked:
  "marked sheet j \<Longrightarrow> marked (fold (applyEnrichmentResult clk) res sheet) j"
  by (induction res arbitrary: sheet) (simp_all add: applyEnrichmentResult_marked)

lemma fold_applyEnrichmentResult_marks:
  "r \<in> set res \<Longrightarrow> result_rowIndex r = Some i \<Longrightarrow> 0 \<le> i \<Longrightarrow> i < int (length (rows sheet)) \<Longrightarrow>
   marked (fold (applyEnrichmentResult clk) res sheet) (nat i)"
proof (induction res arbitrary: sheet)
  case Nil
  then show ?case by simp
next
  case (Cons a rs)
  show ?case
  proof (cases "r = a")
    case True
    with Cons.prems have "marked (applyEnrichmentResult clk a sheet) (nat i)"
      by (simp add: applyEnrichmentResult_marks)
    then show ?thesis by (simp add: fold_applyEnrichmentResult_marked)
  next
    case False
    with Cons.prems have "r \<in> set rs" by simp
    moreover have "i < int (length (rows (applyEnrichmentResult clk a sheet)))"
      using Cons.prems applyEnrichmentResult_props [of clk a sheet] by simp
    ultimately show ?thesis using Cons.IH Cons.prems by simp
  qed
qed

lemma fold_loading_columns:
  "fold (\<lambda>columnId r. r(columnId \<mapsto> loadingCell)) columnIds r k
   = (if k \<in> set columnIds then Some loadingCell else r k)"
  by (induction columnIds arbitrary: r) auto

lemma fold_markRowAsLoading:
  "length (fold (markRowAsLoading columnIds) rowIndices rs) = length rs
   \<and> (\<forall>j k. j < length rs \<longrightarrow>
        (fold (markRowAsLoading columnIds) rowIndices rs ! j) k
        = (if int j \<in> set rowIndices \<and> k \<in> set columnIds then Some loadingCell else (rs ! j) k))"
proof (induction rowIndices arbitrary: rs)
  case Nil
  show ?case by simp
next
  case (Cons a ris)
  have len: "length (markRowAsLoading columnIds a rs) = length rs"
    by (simp add: markRowAsLoading_def)
  have one: "\<forall>j k. j < length rs \<longrightarrow> (markRowAsLoading columnIds a rs ! j) k
        = (if int j = a \<and> k \<in> set columnIds then Some loadingCell else (rs ! j) k)"
    by (auto simp: markRowAsLoading_def nth_list_update fold_loading_columns)
  show ?case
    using Cons.IH [of "markRowAsLoading columnIds a rs"] len one by auto
qed

lemma updateCell_effect:
  assumes "sheets svc sheetId = Some sheet" and "rowIndex \<noteq> PosInfinity"
  shows "\<exists>svc' sheet'. updateCell clk svc sheetId rowIndex columnId v userId = Inr (svc', sheet')
      \<and> sheets svc' sheetId = Some sheet'
      \<and> version (metadata sheet') = version (metadata sheet) + 1
      \<and> (countsAgree sheet \<and> isInteger rowIndex \<longrightarrow> countsAgree sheet')
      \<and> (marked sheet j \<and> \<not> (rowIndex = ofNat j \<and> columnId = ''_enriched'') \<longrightarrow> marked sheet' j)"
proof -
  from padRows_returns [OF assms(2), of "rows sheet"]
  obtain rs where p: "padRows (rows sheet) rowIndex = Some rs" by blast
  note g = padRows_grows [OF p]
  have counts: "countsAgree sheet \<and> isInteger rowIndex \<longrightarrow>
        mathMax (totalRows (metadata sheet)) (plusOne rowIndex) = ofNat (length rs)"
  proof
    assume a: "countsAgree sheet \<and> isInteger rowIndex"
    then obtain n where x: "rowIndex = Finite (of_int n)" using isInteger_cases by blast
    from padRows_integer_length [OF p [unfolded x]]
    have len: "int (length rs) = max (int (length (rows sheet))) (n + 1)" .
    have "(of_nat (length rs) :: rat) = of_int (int (length rs))" by simp
    also have "\<dots> = of_int (max (int (length (rows sheet))) (n + 1))" by (simp only: len)
    also have "\<dots> = max (of_nat (length (rows sheet))) (of_int n + 1)"
      by (simp add: max_def of_nat_le_of_int_rat [of _ "n + 1", simplified])
    finally show "mathMax (totalRows (metadata sheet)) (plusOne rowIndex) = ofNat (length rs)"
      using a by (simp add: x countsAgree_def ofNat_def)
  qed
  show ?thesis
  proof (cases "arrayIndex rowIndex")
    case None
    then show ?thesis
      using assms(1) p g counts
      by (auto simp: updateCell_def getSheet_def Let_def countsAgree_def marked_def)
  next
    case (Some n)
    note x = arrayIndex_ofNat [OF Some]
    note r = arrayIndex_in_range [OF Some p]
    show ?thesis
      using assms(1) p g counts r Some x
      by (auto simp: updateCell_def getSheet_def Let_def countsAgree_def marked_def
          nth_list_update isEnriched_def simpleRow_def simpleProp_def ofNat_def)
  qed
qed

lemma applyMutation_effect:
  assumes "sheets svc sheetId = Some sheet" and "\<not> paddingHasNoEnd m"
  shows "\<exists>svc' sheet'. applyMutation sheetId clk m svc = Inr svc'
      \<and> sheets svc' sheetId = Some sheet'
      \<and> version (metadata sheet') = version (metadata sheet) + 1
      \<and> (countsAgree sheet \<and> integerRowIndex m \<longrightarrow> countsAgree sheet')
      \<and> (marked sheet j \<and> \<not> writesMarker j m \<longrightarrow> marked sheet' j)"
proof (cases m)
  case (UpdateCell rowIndex columnId v userId)
  with assms(2) have "rowIndex \<noteq> PosInfinity" by simp
  from updateCell_effect [OF assms(1) this, of clk columnId v userId j]
  show ?thesis by (auto simp: UpdateCell)
next
  case (AddRow dat userId)
  show ?thesis
    using assms(1)
    by (auto simp: AddRow addRow_def getSheet_def Let_def countsAgree_def marked_def nth_append)
next
  case (AddColumn col userId)
  show ?thesis
    using assms(1)
    by (auto simp: AddColumn addColumn_def getSheet_def Let_def countsAgree_def marked_def)
next
  case (ApplyEnrichmentResults res userId)
  show ?thesis
    using assms(1) fold_applyEnrichmentResult_props [of clk res sheet]
      fold_applyEnrichmentResult_marked [of sheet j clk res]
    by (auto simp: ApplyEnrichmentResults applyEnrichmentResults_def Let_def countsAgree_def
        marked_def)
next
  case (MarkCellsAsLoading rowIndices columnIds)
  show ?thesis
    using assms(1) fold_markRowAsLoading [of columnIds rowIndices "rows sheet"]
    by (auto simp: MarkCellsAsLoading markCellsAsLoading_def Let_def countsAgree_def
        marked_def isEnriched_def simpleRow_def simpleProp_def)
qed

lemma applyMutation_no_end:
  assumes "sheets svc sheetId = Some sheet" and "paddingHasNoEnd m"
  shows "applyMutation sheetId clk m svc = Inl (RangeError ''Invalid array length'')"
  using assms by (cases m) (simp_all add: updateCell_def getSheet_def)

lemma exampleStore_holds: "sheets (fst exampleStore) ''s1'' = Some (snd exampleStore)"
  by (simp add: exampleStore_def createSheet_def Let_def)

lemma exampleStore_rows: "length (rows (snd exampleStore)) = 2"
  by (simp add: exampleStore_def createSheet_def convertDataToRows_def Let_def)

lemma exampleStore_version: "version (metadata (snd exampleStore)) = 1"
  by (simp add: exampleStore_def createSheet_def Let_def)

subsection \<open>The version counter\<close>

lemma observed_versions:
  assumes "sheets svc sheetId = Some sheet"
  shows "map (versionOf sheetId) (observedStores sheetId ms svc)
         = map (\<lambda>k. Some (version (metadata sheet) + int k))
             [0..<length (observedStores sheetId ms svc)]"
  using assms
proof (induction ms arbitrary: svc sheet)
  case Nil
  then show ?case by (simp add: versionOf_def)
next
  case (Cons cm ms)
  obtain clk m where cm: "cm = (clk, m)" by (cases cm)
  show ?case
  proof (cases "paddingHasNoEnd m")
    case True
    from applyMutation_no_end [OF Cons.prems True, of clk]
    show ?thesis using Cons.prems by (simp add: cm versionOf_def)
  next
    case False
    from applyMutation_effect [OF Cons.prems False, of clk]
    obtain svc' sheet' where acc: "applyMutation sheetId clk m svc = Inr svc'"
      and st: "sheets svc' sheetId = Some sheet'"
      and v: "version (metadata sheet') = version (metadata sheet) + 1"
      by blast
    let ?n = "length (observedStores sheetId ms svc')"
    have len: "length (observedStores sheetId (cm # ms) svc) = Suc ?n"
      by (simp add: cm acc)
    have "map (versionOf sheetId) (observedStores sheetId (cm # ms) svc)
          = Some (version (metadata sheet)) # map (versionOf sheetId) (observedStores sheetId ms svc')"
      using Cons.prems by (simp add: cm acc versionOf_def)
    also have "\<dots> = Some (version (metadata sheet))
                    # map (\<lambda>k. Some (version (metadata sheet') + int k)) [0..<?n]"
      using Cons.IH [OF st] by simp
    also have "\<dots> = map (\<lambda>k. Some (version (metadata sheet) + int k)) [0..<Suc ?n]"
      unfolding v by (simp add: map_upt_Suc del: upt_Suc)
    finally show ?thesis unfolding len .
  qed
qed

lemma observed_all_accepted:
  assumes "sheets svc sheetId = Some sheet" and "\<forall>cm \<in> set ms. \<not> paddingHasNoEnd (snd cm)"
  shows "length (observedStores sheetId ms svc) = length ms + 1"
  using assms
proof (induction ms arbitrary: svc sheet)
  case Nil
  then show ?case by simp
next
  case (Cons cm ms)
  obtain clk m where cm: "cm = (clk, m)" by (cases cm)
  from Cons.prems have "\<not> paddingHasNoEnd m" by (simp add: cm)
  from applyMutation_effect [OF Cons.prems(1) this, of clk]
  obtain svc' sheet' where acc: "applyMutation sheetId clk m svc = Inr svc'"
    and st: "sheets svc' sheetId = Some sheet'"
    by blast
  from Cons.IH [OF st] Cons.prems(2) show ?case by (simp add: cm acc)
qed

text \<open>
  Claim C1. On a document that the store holds, along every sequence of calls of
  \<open>updateCell\<close>, \<open>addRow\<close>, \<open>addColumn\<close>, \<open>applyEnrichmentResults\<close> and \<open>markCellsAsLoading\<close>
  the \<open>k\<close>-th observable state has the initial version plus \<open>k\<close>: each accepted call adds
  exactly 1, no two observable states have the same version, and when all \<open>N\<close> calls are
  accepted the version after them is the initial version plus \<open>N\<close>. Every call is accepted,
  whatever number it is given as a row index, but an \<open>updateCell\<close> with \<^verbatim>\<open>+Infinity\<close>.
\<close>

theorem version_counts_mutations:
  assumes "sheets svc sheetId = Some sheet"
  shows "map (versionOf sheetId) (observedStores sheetId ms svc)
        = map (\<lambda>k. Some (version (metadata sheet) + int k))
            [0..<length (observedStores sheetId ms svc)]
    \<and> distinct (map (versionOf sheetId) (observedStores sheetId ms svc))
    \<and> (length (observedStores sheetId ms svc) = length ms + 1 \<longrightarrow>
         versionOf sheetId (last (observedStores sheetId ms svc))
         = Some (version (metadata sheet) + int (length ms)))
    \<and> ((\<forall>cm \<in> set ms. \<not> paddingHasNoEnd (snd cm)) \<longrightarrow>
         length (observedStores sheetId ms svc) = length ms + 1)"
proof -
  let ?obs = "observedStores sheetId ms svc"
  let ?f = "\<lambda>k. Some (version (metadata sheet) + int k)"
  note eq = observed_versions [OF assms, of ms]
  have "inj_on ?f (set [0..<length ?obs])"
    by (auto simp: inj_on_def)
  then have "distinct (map ?f [0..<length ?obs])"
    by (simp add: distinct_map)
  then have d: "distinct (map (versionOf sheetId) ?obs)" by (simp only: eq)
  have l: "length ?obs = length ms + 1 \<longrightarrow>
         versionOf sheetId (last ?obs) = Some (version (metadata sheet) + int (length ms))"
  proof
    assume len: "length ?obs = length ms + 1"
    then have ne: "?obs \<noteq> []" by auto
    have "versionOf sheetId (last ?obs) = last (map (versionOf sheetId) ?obs)"
      using ne by (simp add: last_map)
    also have "\<dots> = last (map ?f [0..<Suc (length ms)])"
      using eq len by simp
    also have "\<dots> = Some (version (metadata sheet) + int (length ms))"
      by (simp del: upt_Suc add: last_map)
    finally show "versionOf sheetId (last ?obs) = Some (version (metadata sheet) + int (length ms))" .
  qed
  from eq d l observed_all_accepted [OF assms, of ms] show ?thesis by blast
qed

theorem version_counts_mutations_witness:
  "sheets (fst exampleStore) ''s1'' = Some (snd exampleStore)
   \<and> \<not> paddingHasNoEnd (UpdateCell (Finite 5) ''nome'' (JStr ''Ana'') ''u1'')
   \<and> \<not> paddingHasNoEnd (UpdateCell (Finite (3 / 2)) ''nome'' (JStr ''Bia'') ''u2'')
   \<and> \<not> paddingHasNoEnd (MarkCellsAsLoading [0] [''company_name''])
   \<and> map (versionOf ''s1'')
        (observedStores ''s1''
           [(clockAt 1, UpdateCell (Finite 5) ''nome'' (JStr ''Ana'') ''u1''),
            (clockAt 2, UpdateCell (Finite (3 / 2)) ''nome'' (JStr ''Bia'') ''u2''),
            (clockAt 3, MarkCellsAsLoading [0] [''company_name''])]
           (fst exampleStore))
      = [Some 1, Some 2, Some 3, Some 4]"
proof -
  let ?ms = "[(clockAt 1, UpdateCell (Finite 5) ''nome'' (JStr ''Ana'') ''u1''),
              (clockAt 2, UpdateCell (Finite (3 / 2)) ''nome'' (JStr ''Bia'') ''u2''),
              (clockAt 3, MarkCellsAsLoading [0] [''company_name''])]"
  have h: "\<forall>cm \<in> set ?ms. \<not> paddingHasNoEnd (snd cm)" by simp
  from version_counts_mutations [OF exampleStore_holds, of ?ms] h
  have len: "length (observedStores ''s1'' ?ms (fst exampleStore)) = 4"
    and eq: "map (versionOf ''s1'') (observedStores ''s1'' ?ms (fst exampleStore))
        = map (\<lambda>k. Some (version (metadata (snd exampleStore)) + int k))
            [0..<length (observedStores ''s1'' ?ms (fst exampleStore))]"
    by simp_all
  have "map (versionOf ''s1'') (observedStores ''s1'' ?ms (fst exampleStore))
        = [Some 1, Some 2, Some 3, Some 4]"
    unfolding eq len by (simp add: exampleStore_version upt_conv_Cons)
  then show ?thesis using exampleStore_holds by simp
qed

subsection \<open>The row and column counters\<close>




subsection \<open>Enriched rows are not selected again\<close>

lemma getUnenrichedRows_unmarked:
  assumes "sheets svc sheetId = Some sheet"
  shows "\<exists>urs. getUnenrichedRows svc sheetId cnpjField = Inr urs
               \<and> (\<forall>u \<in> set urs. ur_index u < length (rows sheet) \<and> \<not> marked sheet (ur_index u))"
  using assms
  by (auto simp: getUnenrichedRows_def marked_def in_set_enumerate_eq)

lemma applyEnrichmentResults_marks:
  assumes "sheets svc sheetId = Some sheet"
  shows "\<exists>svc' sheet'. applyEnrichmentResults clk svc sheetId res userId = Inr (svc', sheet')
          \<and> sheets svc' sheetId = Some sheet'
          \<and> length (rows sheet') = length (rows sheet)
          \<and> (\<forall>r \<in> set res. \<forall>i. result_rowIndex r = Some i \<and> 0 \<le> i \<and> i < int (length (rows sheet))
                 \<longrightarrow> marked sheet' (nat i))"
  using assms fold_applyEnrichmentResult_props [of clk res sheet]
    fold_applyEnrichmentResult_marks [of _ res _ sheet clk]
  by (auto simp: applyEnrichmentResults_def Let_def marked_def)

text \<open>
  Claim C3. After \<open>applyEnrichmentResults\<close> on a document that the store holds, every result
  row whose index is within the rows of the sheet is marked enriched, and
  \<open>getUnenrichedRows\<close>, for any tax-id field name, returns no row whose index appears in the
  results.
\<close>

theorem enriched_rows_not_reselected:
  assumes "sheets svc sheetId = Some sheet"
  shows "\<exists>svc' sheet' urs.
           applyEnrichmentResults clk svc sheetId res userId = Inr (svc', sheet')
         \<and> getUnenrichedRows svc' sheetId cnpjField = Inr urs
         \<and> (\<forall>r \<in> set res. \<forall>i. result_rowIndex r = Some i \<and> 0 \<le> i
                \<and> i < int (length (rows sheet)) \<longrightarrow> marked sheet' (nat i))
         \<and> (\<forall>u \<in> set urs. \<forall>r \<in> set res. result_rowIndex r \<noteq> Some (int (ur_index u)))"
proof -
  from applyEnrichmentResults_marks [OF assms, of clk res userId]
  obtain svc' sheet' where ap: "applyEnrichmentResults clk svc sheetId res userId = Inr (svc', sheet')"
    and st: "sheets svc' sheetId = Some sheet'"
    and len: "length (rows sheet') = length (rows sheet)"
    and mk: "\<forall>r \<in> set res. \<forall>i. result_rowIndex r = Some i \<and> 0 \<le> i
                \<and> i < int (length (rows sheet)) \<longrightarrow> marked sheet' (nat i)"
    by blast
  from getUnenrichedRows_unmarked [OF st, of cnpjField]
  obtain urs where g: "getUnenrichedRows svc' sheetId cnpjField = Inr urs"
    and un: "\<forall>u \<in> set urs. ur_index u < length (rows sheet') \<and> \<not> marked sheet' (ur_index u)"
    by blast
  have "\<forall>u \<in> set urs. \<forall>r \<in> set res. result_rowIndex r \<noteq> Some (int (ur_index u))"
  proof (intro ballI notI)
    fix u r assume u: "u \<in> set urs" and r: "r \<in> set res"
      and eq: "result_rowIndex r = Some (int (ur_index u))"
    from un u have lt: "ur_index u < length (rows sheet)" and nm: "\<not> marked sheet' (ur_index u)"
      by (simp_all add: len)
    from mk r eq lt have "marked sheet' (nat (int (ur_index u)))" by fastforce
    with nm show False by simp
  qed
  with ap g mk show ?thesis by blast
qed

theorem enriched_rows_not_reselected_witness:
  "sheets (fst exampleStore) ''s1'' = Some (snd exampleStore)
   \<and> (\<exists>svc' sheet' urs.
         applyEnrichmentResults (clockAt 1) (fst exampleStore) ''s1''
           [\<lparr>result_rowIndex = Some 0, result_data = JNull,
             result_enrichedFields = [(''company_name'', JStr ''ACME'')]\<rparr>] ''u1''
           = Inr (svc', sheet')
         \<and> getUnenrichedRows svc' ''s1'' ''cnpj'' = Inr urs
         \<and> marked sheet' 0
         \<and> 0 \<notin> ur_index ` set urs)"
proof -
  from enriched_rows_not_reselected [OF exampleStore_holds,
          of "clockAt 1"
             "[\<lparr>result_rowIndex = Some 0, result_data = JNull,
                result_enrichedFields = [(''company_name'', JStr ''ACME'')]\<rparr>]"
             "''u1''" "''cnpj''"]
  obtain svc' sheet' urs where
    a: "applyEnrichmentResults (clockAt 1) (fst exampleStore) ''s1''
           [\<lparr>result_rowIndex = Some 0, result_data = JNull,
             result_enrichedFields = [(''company_name'', JStr ''ACME'')]\<rparr>] ''u1''
           = Inr (svc', sheet')"
    and g: "getUnenrichedRows svc' ''s1'' ''cnpj'' = Inr urs"
    and m: "0 < int (length (rows (snd exampleStore))) \<longrightarrow> marked sheet' (nat 0)"
    and n: "\<forall>u \<in> set urs. Some 0 \<noteq> Some (int (ur_index u))"
    by auto
  from m have "marked sheet' 0" by (simp add: exampleStore_rows)
  moreover from n have "0 \<notin> ur_index ` set urs" by auto
  ultimately show ?thesis using a g exampleStore_holds by blast
qed

subsection \<open>Rows whose lookup failed\<close>

text \<open>
  Against claim C10 as stated: the row of a failed lookup is marked and left out by
  \<open>getUnenrichedRows\<close>, but not for ever. An \<open>updateCell\<close> that writes \<^verbatim>\<open>false\<close> into the
  \<^verbatim>\<open>_enriched\<close> cell of the row makes the next selection return it again.
\<close>

theorem marker_overwritten_counterexample:
  "(case applyEnrichmentResults (clockAt 1) (fst exampleStore) ''s1''
           [\<lparr>result_rowIndex = Some 1, result_data = JNull,
             result_enrichedFields = errorPayload ''CNPJ invalido'' JUndefined\<rparr>] ''u1'' of
      Inl e \<Rightarrow> False
    | Inr (svc1, sheet1) \<Rightarrow>
        map_sum (\<lambda>e. e) (map ur_index) (getUnenrichedRows svc1 ''s1'' ''cnpj'') = Inr [0]
        \<and> (case updateCell (clockAt 2) svc1 ''s1'' (Finite 1) ''_enriched'' (JBool False) ''u1'' of
              Inl e \<Rightarrow> False
            | Inr (svc2, sheet2) \<Rightarrow>
                map_sum (\<lambda>e. e) (map ur_index) (getUnenrichedRows svc2 ''s1'' ''cnpj'')
                = Inr [0, 1]))"
  by code_simp

lemma marked_along:
  assumes "sheets svc sheetId = Some sheet" and "marked sheet i"
    and "\<forall>cm \<in> set later. \<not> writesMarker i (snd cm)"
  shows "\<forall>svc'' \<in> set (observedStores sheetId later svc).
           \<exists>sheet''. sheets svc'' sheetId = Some sheet'' \<and> marked sheet'' i"
  using assms
proof (induction later arbitrary: svc sheet)
  case Nil
  then show ?case by simp
next
  case (Cons cm later)
  obtain clk m where cm: "cm = (clk, m)" by (cases cm)
  show ?case
  proof (cases "paddingHasNoEnd m")
    case True
    from applyMutation_no_end [OF Cons.prems(1) True, of clk]
    show ?thesis using Cons.prems(1,2) by (simp add: cm)
  next
    case False
    from Cons.prems have nw: "\<not> writesMarker i m" by (simp add: cm)
    from applyMutation_effect [OF Cons.prems(1) False, of clk i] Cons.prems(2) nw
    obtain svc' sheet' where acc: "applyMutation sheetId clk m svc = Inr svc'"
      and st: "sheets svc' sheetId = Some sheet'" and mk: "marked sheet' i"
      by blast
    have "\<forall>svc'' \<in> set (observedStores sheetId later svc').
             \<exists>sheet''. sheets svc'' sheetId = Some sheet'' \<and> marked sheet'' i"
      using Cons.IH [OF st mk] Cons.prems(3) by simp
    then show ?thesis using Cons.prems(1,2) by (simp add: cm acc)
  qed
qed

text \<open>
  Claim C10, amended. A result whose enriched fields are the error payload of a failed
  lookup marks its row enriched like any other result: after \<open>applyEnrichmentResults\<close> the
  row is marked, and \<open>getUnenrichedRows\<close> leaves it out in every state observable along
  later mutating calls for as long as none of them writes the \<^verbatim>\<open>_enriched\<close> cell of that
  row itself (\<open>updateCell\<close> on that cell, or \<open>markCellsAsLoading\<close> with that row and that
  column).
\<close>

theorem failed_lookup_row_never_reselected:
  assumes "sheets svc sheetId = Some sheet"
    and "r \<in> set res"
    and "result_rowIndex r = Some (int i)"
    and "i < length (rows sheet)"
    and "result_enrichedFields r = errorPayload message code"
    and "\<forall>cm \<in> set later. \<not> writesMarker i (snd cm)"
  shows "\<exists>svc' sheet'.
           applyEnrichmentResults clk svc sheetId res userId = Inr (svc', sheet')
         \<and> marked sheet' i
         \<and> (\<forall>svc'' \<in> set (observedStores sheetId later svc').
               \<exists>urs. getUnenrichedRows svc'' sheetId cnpjField = Inr urs
                     \<and> i \<notin> ur_index ` set urs)"
proof -
  from applyEnrichmentResults_marks [OF assms(1), of clk res userId]
  obtain svc' sheet' where ap: "applyEnrichmentResults clk svc sheetId res userId = Inr (svc', sheet')"
    and st: "sheets svc' sheetId = Some sheet'"
    and mk: "\<forall>r \<in> set res. \<forall>i. result_rowIndex r = Some i \<and> 0 \<le> i
                \<and> i < int (length (rows sheet)) \<longrightarrow> marked sheet' (nat i)"
    by blast
  from mk assms(2,3,4) have m: "marked sheet' i" by fastforce
  have "\<forall>svc'' \<in> set (observedStores sheetId later svc').
               \<exists>urs. getUnenrichedRows svc'' sheetId cnpjField = Inr urs
                     \<and> i \<notin> ur_index ` set urs"
  proof
    fix svc'' assume "svc'' \<in> set (observedStores sheetId later svc')"
    with marked_along [OF st m assms(6)]
    obtain sheet'' where st'': "sheets svc'' sheetId = Some sheet''" and m'': "marked sheet'' i"
      by blast
    from getUnenrichedRows_unmarked [OF st'', of cnpjField] m''
    show "\<exists>urs. getUnenrichedRows svc'' sheetId cnpjField = Inr urs \<and> i \<notin> ur_index ` set urs"
      by auto
  qed
  with ap m show ?thesis by blast
qed

theorem failed_lookup_row_never_reselected_witness:
  "sheets (fst exampleStore) ''s1'' = Some (snd exampleStore)
   \<and> 1 < length (rows (snd exampleStore))
   \<and> (\<exists>svc' sheet'.
         applyEnrichmentResults (clockAt 1) (fst exampleStore) ''s1''
           [\<lparr>result_rowIndex = Some 1, result_data = JNull,
             result_enrichedFields = errorPayload ''CNPJ invalido'' JUndefined\<rparr>] ''u1''
           = Inr (svc', sheet')
         \<and> marked sheet' 1
         \<and> (\<exists>urs. getUnenrichedRows
                      (last (observedStores ''s1''
                         [(clockAt 2, AddRow [(''cnpj'', JStr ''11444777000161'')] ''u1''),
                          (clockAt 3, UpdateCell (Finite 1) ''cnpj'' (JStr ''11222333000181'') ''u1'')] svc'))
                      ''s1'' ''cnpj'' = Inr urs
                  \<and> 1 \<notin> ur_index ` set urs))"
proof -
  let ?later = "[(clockAt 2, AddRow [(''cnpj'', JStr ''11444777000161'')] ''u1''),
                 (clockAt 3, UpdateCell (Finite 1) ''cnpj'' (JStr ''11222333000181'') ''u1'')]"
  let ?r = "\<lparr>result_rowIndex = Some 1, result_data = JNull,
             result_enrichedFields = errorPayload ''CNPJ invalido'' JUndefined\<rparr>"
  have h2: "?r \<in> set [?r]" by simp
  have h3: "result_rowIndex ?r = Some (int 1)" by simp
  have h4: "1 < length (rows (snd exampleStore))" by (simp add: exampleStore_rows)
  have h5: "result_enrichedFields ?r = errorPayload ''CNPJ invalido'' JUndefined" by simp
  have h6: "\<forall>cm \<in> set ?later. \<not> writesMarker 1 (snd cm)" by simp
  from failed_lookup_row_never_reselected [OF exampleStore_holds h2 h3 h4 h5 h6,
         of "clockAt 1" "''u1''" "''cnpj''"]
  obtain svc' sheet' where
    a: "applyEnrichmentResults (clockAt 1) (fst exampleStore) ''s1'' [?r] ''u1'' = Inr (svc', sheet')"
    and m: "marked sheet' 1"
    and l: "\<forall>svc'' \<in> set (observedStores ''s1'' ?later svc').
               \<exists>urs. getUnenrichedRows svc'' ''s1'' ''cnpj'' = Inr urs \<and> 1 \<notin> ur_index ` set urs"
    by blast
  have "observedStores ''s1'' ?later svc' \<noteq> []" by simp
  then have "last (observedStores ''s1'' ?later svc') \<in> set (observedStores ''s1'' ?later svc')"
    by (rule last_in_set)
  with l have "\<exists>urs. getUnenrichedRows (last (observedStores ''s1'' ?later svc')) ''s1'' ''cnpj''
                       = Inr urs \<and> 1 \<notin> ur_index ` set urs"
    by blast
  with a m h4 exampleStore_holds show ?thesis by blast
qed

end
